theory Spec2Isabelle
  imports Main "HOL-Library.Finite_Map" "HOL-Library.Sublist" "HOL-Library.Char_ord"
    "HOL-Library.List_Lexorder"
begin

section \<open>JSON values and the Python operations applied to them\<close>

text \<open>
  Tokens, payloads, policies and status documents are what \<^verbatim>\<open>json.loads\<close> returns:
  \<^verbatim>\<open>None\<close>, booleans, integers, strings, lists and dicts with string keys. Numbers
  with a fraction or an exponent are left out of the model. A dict is a finite map,
  so that two dicts are equal whatever the order of their items.
\<close>

datatype json =
    JNull
  | JBool bool
  | JInt int
  | JStr string
  | JList "json list"
  | JObj "(string, json) fmap"

text \<open>
  The exception classes the verifier raises or meets. \<^verbatim>\<open>KeyNotFoundError\<close> is a
  subclass of \<^verbatim>\<open>CryptoError\<close>; every class here is a subclass of \<^verbatim>\<open>Exception\<close>.
  An exception carries the text \<^verbatim>\<open>str(e)\<close> gives; for the interpreter's own
  errors the model keeps a short text in its place.
\<close>

datatype exn_class =
    CryptoError
  | KeyNotFoundError
  | StatusError
  | AnchorError
  | InvalidTokenError
  | TypeError
  | AttributeError
  | KeyError
  | IndexError
  | ValueError
  | OSError

type_synonym py_exn = "exn_class \<times> string"

definition raise :: "exn_class \<Rightarrow> string \<Rightarrow> py_exn + 'a" where
  "raise c msg = Inl (c, msg)"

definition ebind :: "py_exn + 'a \<Rightarrow> ('a \<Rightarrow> py_exn + 'b) \<Rightarrow> py_exn + 'b" where
  "ebind m f = (case m of Inl e \<Rightarrow> Inl e | Inr x \<Rightarrow> f x)"

definition is_crypto_error :: "exn_class \<Rightarrow> bool" where
  "is_crypto_error c = (c = CryptoError \<or> c = KeyNotFoundError)"

text \<open>Truth value of an object, as \<^verbatim>\<open>if x:\<close> and \<^verbatim>\<open>not x\<close> test it.\<close>

fun truthy :: "json \<Rightarrow> bool" where
  "truthy JNull = False"
| "truthy (JBool b) = b"
| "truthy (JInt i) = (i \<noteq> 0)"
| "truthy (JStr s) = (s \<noteq> [])"
| "truthy (JList xs) = (xs \<noteq> [])"
| "truthy (JObj m) = (m \<noteq> fmempty)"

text \<open>\<^verbatim>\<open>d.get(k, default)\<close>: only a dict has the method.\<close>

fun py_get :: "json \<Rightarrow> string \<Rightarrow> json \<Rightarrow> py_exn + json" where
  "py_get (JObj m) k d = Inr (case fmlookup m k of Some v \<Rightarrow> v | None \<Rightarrow> d)"
| "py_get _ k d = raise AttributeError ''object has no attribute get''"

text \<open>\<^verbatim>\<open>d[k]\<close> with a string key.\<close>

fun py_index :: "json \<Rightarrow> string \<Rightarrow> py_exn + json" where
  "py_index (JObj m) k = (case fmlookup m k of Some v \<Rightarrow> Inr v | None \<Rightarrow> raise KeyError k)"
| "py_index _ k = raise TypeError ''indices must be integers or object is not subscriptable''"

text \<open>
  Python's \<^verbatim>\<open>==\<close> on these values is structural, except that \<^verbatim>\<open>True == 1\<close> and
  \<^verbatim>\<open>False == 0\<close>: \<open>norm\<close> replaces the booleans by these integers.
\<close>

primrec norm :: "json \<Rightarrow> json" where
  "norm JNull = JNull"
| "norm (JBool b) = JInt (if b then 1 else 0)"
| "norm (JInt i) = JInt i"
| "norm (JStr s) = JStr s"
| "norm (JList xs) = JList (map norm xs)"
| "norm (JObj m) = JObj (fmmap norm m)"

definition py_eq :: "json \<Rightarrow> json \<Rightarrow> bool" where
  "py_eq a b = (norm a = norm b)"

text \<open>An integer operand of \<^verbatim>\<open><\<close> and \<^verbatim>\<open>>\<close>; \<^verbatim>\<open>bool\<close> is a subclass of \<^verbatim>\<open>int\<close>.\<close>

fun as_int :: "json \<Rightarrow> int option" where
  "as_int (JInt i) = Some i"
| "as_int (JBool b) = Some (if b then 1 else 0)"
| "as_int _ = None"

definition py_lt :: "json \<Rightarrow> json \<Rightarrow> py_exn + bool" where
  "py_lt a b =
     (case (as_int a, as_int b) of
        (Some x, Some y) \<Rightarrow> Inr (x < y)
      | _ \<Rightarrow> raise TypeError ''< not supported between these instances'')"

text \<open>
  \<^verbatim>\<open>"lit" in x\<close> for a string literal: substring of a string, element of a list,
  key of a dict; anything else is not iterable.
\<close>

fun py_in_str :: "string \<Rightarrow> json \<Rightarrow> py_exn + bool" where
  "py_in_str lit (JStr s) = Inr (sublist lit s)"
| "py_in_str lit (JList xs) = Inr (JStr lit \<in> set xs)"
| "py_in_str lit (JObj m) = Inr (lit |\<in>| fmdom m)"
| "py_in_str lit _ = raise TypeError ''argument is not iterable''"

text \<open>
  \<^verbatim>\<open>x in c\<close> in general. In a list the elements are compared with \<^verbatim>\<open>==\<close>; in a
  string the left operand must be a string; in a dict the left operand is hashed, which
  a list or a dict refuses.
\<close>

fun py_in :: "json \<Rightarrow> json \<Rightarrow> py_exn + bool" where
  "py_in x (JList xs) = Inr (\<exists>e \<in> set xs. py_eq x e)"
| "py_in x (JStr s) =
     (case x of JStr t \<Rightarrow> Inr (sublist t s)
      | _ \<Rightarrow> raise TypeError ''in <string> requires string as left operand'')"
| "py_in x (JObj m) =
     (case x of
        JStr k \<Rightarrow> Inr (k |\<in>| fmdom m)
      | JList _ \<Rightarrow> raise TypeError ''unhashable type''
      | JObj _ \<Rightarrow> raise TypeError ''unhashable type''
      | _ \<Rightarrow> Inr False)"
| "py_in x _ = raise TypeError ''argument is not iterable''"

text \<open>
  \<^verbatim>\<open>for e in c\<close> and \<^verbatim>\<open>len(c)\<close>. A string yields its characters and a dict its keys;
  the model lists the keys in sorted order, the insertion order being forgotten by
  the finite map (every key is a string, and the loops below do the same on each).
\<close>

fun py_iter :: "json \<Rightarrow> py_exn + json list" where
  "py_iter (JList xs) = Inr xs"
| "py_iter (JStr s) = Inr (map (\<lambda>c. JStr [c]) s)"
| "py_iter (JObj m) = Inr (map JStr (sorted_list_of_fset (fmdom m)))"
| "py_iter _ = raise TypeError ''object is not iterable''"

fun py_len :: "json \<Rightarrow> py_exn + nat" where
  "py_len (JList xs) = Inr (length xs)"
| "py_len (JStr s) = Inr (length s)"
| "py_len (JObj m) = Inr (fcard (fmdom m))"
| "py_len _ = raise TypeError ''object has no len''"

text \<open>\<^verbatim>\<open>a + b\<close> and \<^verbatim>\<open>a - b\<close> where the result is then compared with an integer.\<close>

definition py_add :: "json \<Rightarrow> json \<Rightarrow> py_exn + json" where
  "py_add a b =
     (case (as_int a, as_int b) of
        (Some x, Some y) \<Rightarrow> Inr (JInt (x + y))
      | _ \<Rightarrow> raise TypeError ''unsupported operand types'')"

definition py_sub :: "json \<Rightarrow> json \<Rightarrow> py_exn + json" where
  "py_sub a b =
     (case (as_int a, as_int b) of
        (Some x, Some y) \<Rightarrow> Inr (JInt (x - y))
      | _ \<Rightarrow> raise TypeError ''unsupported operand types'')"

text \<open>\<^verbatim>\<open>xs[i]\<close> on a list: a negative index counts from the end.\<close>

definition py_nth :: "'a list \<Rightarrow> int \<Rightarrow> py_exn + 'a" where
  "py_nth xs i =
     (if 0 \<le> i \<and> i < int (length xs) then Inr (xs ! nat i)
      else if i < 0 \<and> - int (length xs) \<le> i then Inr (xs ! nat (int (length xs) + i))
      else raise IndexError ''list index out of range'')"

text \<open>\<^verbatim>\<open>str(n)\<close> of an integer, as an f-string formats it.\<close>

fun dec_nat :: "nat \<Rightarrow> string" where
  "dec_nat n =
     (if n < 10 then [char_of (48 + n)] else dec_nat (n div 10) @ [char_of (48 + n mod 10)])"

declare dec_nat.simps [simp del]

definition py_str_int :: "int \<Rightarrow> string" where
  "py_str_int i = (if i < 0 then CHR ''-'' # dec_nat (nat (- i)) else dec_nat (nat i))"

definition obj :: "(string \<times> json) list \<Rightarrow> json" where
  "obj kvs = JObj (fmap_of_list kvs)"

section \<open>Status resolver (verifier/status.py)\<close>

text \<open>
  What reading a file and parsing it as JSON gives: the file is missing, reading it
  raises \<^verbatim>\<open>IOError\<close>, its text is not JSON, or it holds a value.
\<close>

datatype file_state = Absent | Unreadable | NotJson | Holds json

record status_files =
  revoked_file :: file_state
  active_file :: file_state

definition fetch_status :: "status_files \<Rightarrow> json \<Rightarrow> py_exn + json" where
  "fetch_status fs status_url =
     ebind (py_in_str ''revoked'' status_url) (\<lambda>r.
       case (if r then revoked_file fs else active_file fs) of
         Absent \<Rightarrow> raise StatusError ''Status file not found''
       | Unreadable \<Rightarrow> raise StatusError ''Error loading status file''
       | NotJson \<Rightarrow> raise StatusError ''Error loading status file''
       | Holds d \<Rightarrow> Inr d)"

definition is_revoked :: "json \<Rightarrow> json \<Rightarrow> py_exn + bool" where
  "is_revoked status_doc index =
     ebind (py_get status_doc ''encodedList'' (JStr [])) (\<lambda>encoded_list.
     ebind (py_in_str ''/////'' encoded_list) (\<lambda>found.
       if found then Inr True else Inr False))"

section \<open>Error codes and constants (verifier/constants.py)\<close>

definition ErrorCode_OK :: string where "ErrorCode_OK = ''OK''"
definition ErrorCode_FORMAT_ERROR :: string where "ErrorCode_FORMAT_ERROR = ''100''"
definition ErrorCode_STRUCT :: string where "ErrorCode_STRUCT = ''100''"
definition ErrorCode_ALG :: string where "ErrorCode_ALG = ''E200''"
definition ErrorCode_VC_TIME :: string where "ErrorCode_VC_TIME = ''E200''"
definition ErrorCode_VC_REVOKED :: string where "ErrorCode_VC_REVOKED = ''E200''"
definition ErrorCode_KEY_BINDING_UNVERIFIED :: string where
  "ErrorCode_KEY_BINDING_UNVERIFIED = ''E200''"
definition ErrorCode_DG_DEPTH :: string where "ErrorCode_DG_DEPTH = ''E300''"
definition ErrorCode_DG_TIME :: string where "ErrorCode_DG_TIME = ''E300''"
definition ErrorCode_DG_REVOKED :: string where "ErrorCode_DG_REVOKED = ''E300''"
definition ErrorCode_STATUS_FETCH_ERROR :: string where
  "ErrorCode_STATUS_FETCH_ERROR = ''E300''"
definition ErrorCode_ANCHOR_VERIFICATION_FAILED :: string where
  "ErrorCode_ANCHOR_VERIFICATION_FAILED = ''E300''"
definition ErrorCode_DG_SCOPE_ESCALATION :: string where
  "ErrorCode_DG_SCOPE_ESCALATION = ''E400''"
definition ErrorCode_HOLDER_BINDING :: string where "ErrorCode_HOLDER_BINDING = ''E500''"
definition ErrorCode_INTERNAL :: string where "ErrorCode_INTERNAL = ''E900''"

definition DETERMINISTIC_TIMESTAMP :: int where
  "DETERMINISTIC_TIMESTAMP = 1735600000"

section \<open>The world outside the repository\<close>

text \<open>
  The verification result object, as \<open>verify_cvc\<close> assembles it before signing.
\<close>

record vro =
  vro_cvc_id :: json
  vro_timestamp :: int
  vro_policy_ref :: json
  vro_issuer :: json
  vro_subject :: json
  vro_delegation_chain_depth :: json
  vro_decision :: string
  vro_assurance :: string
  vro_chain_fingerprint :: json

text \<open>
  What the code takes from libraries, the clock and the file system is a parameter of
  the model: the PyJWT calls, the conversion of a key's \<^verbatim>\<open>x\<close> coordinate to PEM, JSON
  files by path, the two status files, \<^verbatim>\<open>hashlib.sha256(..).hexdigest()\<close>,
  \<^verbatim>\<open>json.dumps(.., sort_keys=True)\<close>, \<^verbatim>\<open>str\<close> of a value, the signing of a VRO with the
  verifier's key file (\<open>None\<close> when the key is missing or signing fails), and one
  reading of \<^verbatim>\<open>int(time.time())\<close> for each place that reads the clock.
\<close>

record env =
  jwt_get_unverified_header :: "json \<Rightarrow> py_exn + json"
  jwt_decode :: "json \<Rightarrow> string \<Rightarrow> py_exn + json"
  jwk_x_to_pem :: "string \<Rightarrow> string option"
  read_json_file :: "string \<Rightarrow> file_state"
  status_store :: status_files
  sha256_hex :: "string \<Rightarrow> string"
  json_dumps :: "json \<Rightarrow> string"
  py_str :: "json \<Rightarrow> string"
  jwt_encode_vro :: "vro \<Rightarrow> string option"
  time_vc :: int
  time_dg :: int
  time_meta :: int
  time_anchor :: int

section \<open>Cryptographic verifier (verifier/crypto.py)\<close>

definition jwk_to_pem :: "env \<Rightarrow> json \<Rightarrow> py_exn + string" where
  "jwk_to_pem e jwk =
     ebind (py_get jwk ''x'' (JStr [])) (\<lambda>x.
       if \<not> truthy x then raise CryptoError ''JWK missing x coordinate''
       else case x of
         JStr xs \<Rightarrow>
           (case jwk_x_to_pem e (xs @ replicate (4 - length xs mod 4) (CHR ''='')) of
              None \<Rightarrow> raise CryptoError ''Error converting JWK to PEM''
            | Some pem \<Rightarrow> Inr pem)
       | _ \<Rightarrow> raise TypeError ''unsupported operand types'')"

text \<open>The loop over the keys of a JWKS: the first key whose \<^verbatim>\<open>kid\<close> equals the one sought.\<close>

fun find_key :: "json list \<Rightarrow> json \<Rightarrow> py_exn + json option" where
  "find_key [] kid = Inr None"
| "find_key (key_data # rest) kid =
     ebind (py_get key_data ''kid'' JNull) (\<lambda>k.
       if py_eq k kid then Inr (Some key_data) else find_key rest kid)"

definition jwks_get_key :: "env \<Rightarrow> string \<Rightarrow> json \<Rightarrow> py_exn + string" where
  "jwks_get_key e jwks_path kid =
     (case read_json_file e jwks_path of
        Absent \<Rightarrow> raise CryptoError ''Error loading JWKS''
      | NotJson \<Rightarrow> raise CryptoError ''Error loading JWKS''
      | Unreadable \<Rightarrow> raise OSError ''cannot read file''
      | Holds data \<Rightarrow>
          ebind (py_get data ''keys'' (JList [])) (\<lambda>keys.
          ebind (py_iter keys) (\<lambda>ks.
          ebind (find_key ks kid) (\<lambda>found.
            case found of
              Some key_data \<Rightarrow> jwk_to_pem e key_data
            | None \<Rightarrow> raise KeyNotFoundError ''KID not found in JWKS''))))"

definition key_exists_in_jwks :: "env \<Rightarrow> string \<Rightarrow> json \<Rightarrow> py_exn + bool" where
  "key_exists_in_jwks e jwks_path kid =
     (case read_json_file e jwks_path of
        Absent \<Rightarrow> Inr False
      | NotJson \<Rightarrow> Inr False
      | Unreadable \<Rightarrow> raise OSError ''cannot read file''
      | Holds data \<Rightarrow>
          ebind (py_get data ''keys'' (JList [])) (\<lambda>keys.
          ebind (py_iter keys) (\<lambda>ks.
          ebind (find_key ks kid) (\<lambda>found.
            case found of Some _ \<Rightarrow> Inr True | None \<Rightarrow> Inr False))))"

text \<open>
  \<open>verify_jws\<close> returns the header and the payload of the verified token; every
  \<^verbatim>\<open>jwt.InvalidTokenError\<close> leaves it as a \<^verbatim>\<open>CryptoError\<close>.
\<close>

definition verify_jws :: "env \<Rightarrow> json \<Rightarrow> string \<Rightarrow> py_exn + json \<times> json" where
  "verify_jws e token jwks_path =
     (case
        ebind (jwt_get_unverified_header e token) (\<lambda>header.
        ebind (py_get header ''kid'' JNull) (\<lambda>kid.
          if \<not> truthy kid then raise CryptoError ''JWT header missing kid''
          else
            ebind (jwks_get_key e jwks_path kid) (\<lambda>key.
            ebind (jwt_decode e token key) (\<lambda>payload.
              Inr (header, payload)))))
      of
        Inl (c, msg) \<Rightarrow>
          if c = InvalidTokenError then raise CryptoError (''JWT verification failed: '' @ msg)
          else Inl (c, msg)
      | Inr r \<Rightarrow> Inr r)"

section \<open>Anchor ledger (verifier/anchor.py, class MockBlockchainAnchor)\<close>

record proof_detail =
  pd_type :: string
  pd_fingerprint :: string
  pd_block_hash :: string
  pd_chain_position :: int

record anchor_proof =
  ap_block_hash :: string
  ap_block_number :: int
  ap_transaction_hash :: string
  ap_timestamp :: int
  ap_proof :: proof_detail

record chain_entry =
  ce_block_hash :: string
  ce_block_number :: int
  ce_fingerprint :: string
  ce_timestamp :: int

text \<open>
  The object's two attributes. \<^verbatim>\<open>_save_to_storage\<close> writes them to a file and swallows
  every exception; it changes neither of them nor any returned value, and the file is
  left out of the state.
\<close>

record ledger =
  in_memory_anchors :: "string \<rightharpoonup> anchor_proof"
  chain :: "chain_entry list"

definition empty_ledger :: ledger where
  "empty_ledger = \<lparr>in_memory_anchors = Map.empty, chain = []\<rparr>"

definition anchor_chain_fingerprint ::
  "env \<Rightarrow> ledger \<Rightarrow> string \<Rightarrow> json option \<Rightarrow> (py_exn + anchor_proof) \<times> ledger" where
  "anchor_chain_fingerprint e L fingerprint metadata =
     (if fingerprint = [] then (raise AnchorError ''Fingerprint cannot be empty'', L)
      else case in_memory_anchors L fingerprint of
        Some existing \<Rightarrow> (Inr existing, L)
      | None \<Rightarrow>
          (let block_number = int (length (chain L)) + 1;
               timestamp = time_anchor e;
               block_data = obj
                 [(''fingerprint'', JStr fingerprint),
                  (''metadata'',
                     (case metadata of
                        None \<Rightarrow> JObj fmempty
                      | Some m \<Rightarrow> if truthy m then m else JObj fmempty)),
                  (''timestamp'', JInt timestamp),
                  (''block_number'', JInt block_number)];
               block_hash_input =
                 json_dumps e block_data @
                 (if chain L \<noteq> [] then ce_block_hash (last (chain L)) else []);
               block_hash = sha256_hex e block_hash_input;
               tx_data = fingerprint @ py_str_int timestamp @ py_str_int block_number;
               transaction_hash = sha256_hex e tx_data;
               proof = \<lparr>ap_block_hash = block_hash, ap_block_number = block_number,
                        ap_transaction_hash = transaction_hash, ap_timestamp = timestamp,
                        ap_proof = \<lparr>pd_type = ''mock_blockchain'',
                                     pd_fingerprint = fingerprint,
                                     pd_block_hash = block_hash,
                                     pd_chain_position = block_number\<rparr>\<rparr>
           in (Inr proof,
               L\<lparr>in_memory_anchors := (in_memory_anchors L)(fingerprint \<mapsto> proof),
                 chain := chain L @
                   [\<lparr>ce_block_hash = block_hash, ce_block_number = block_number,
                     ce_fingerprint = fingerprint, ce_timestamp = timestamp\<rparr>]\<rparr>)))"

definition verify_anchor ::
  "ledger \<Rightarrow> string \<Rightarrow> anchor_proof option \<Rightarrow> py_exn + bool \<times> string option" where
  "verify_anchor L fingerprint anchor_proof =
     (if fingerprint = [] then Inr (False, Some ''Fingerprint cannot be empty'')
      else
        let supplied =
          (case anchor_proof of
             None \<Rightarrow> None
           | Some p \<Rightarrow>
               if pd_fingerprint (ap_proof p) \<noteq> fingerprint
               then Some ''Anchor proof fingerprint mismatch''
               else case in_memory_anchors L fingerprint of
                 None \<Rightarrow> Some ''Anchor proof not found in storage''
               | Some stored \<Rightarrow>
                   if ap_transaction_hash stored \<noteq> ap_transaction_hash p
                   then Some ''Anchor proof transaction hash mismatch''
                   else None)
        in case supplied of
          Some msg \<Rightarrow> Inr (False, Some msg)
        | None \<Rightarrow>
            (case in_memory_anchors L fingerprint of
               None \<Rightarrow> Inr (False, Some ''Fingerprint not anchored'')
             | Some stored_proof \<Rightarrow>
                 (let block_number = ap_block_number stored_proof in
                  if block_number \<noteq> 0 \<and> block_number \<le> int (length (chain L))
                  then
                    ebind (py_nth (chain L) (block_number - 1)) (\<lambda>chain_entry.
                      if ce_fingerprint chain_entry \<noteq> fingerprint
                      then Inr (False, Some ''Chain integrity verification failed'')
                      else Inr (True, None))
                  else Inr (True, None))))"

definition get_anchor_proof :: "ledger \<Rightarrow> string \<Rightarrow> anchor_proof option" where
  "get_anchor_proof L fingerprint = in_memory_anchors L fingerprint"

section \<open>Delegation chain verifier (verifier/verifier.py)\<close>

text \<open>
  What a verification function returns: success flag, error code, information.
  Logging and the metrics collector only record what happened and are left out.
\<close>

type_synonym result = "bool \<times> string \<times> json"

text \<open>
  \<^verbatim>\<open>set(x)\<close>: the elements of a list must be hashable; a string gives its characters,
  a dict its keys. Elements are kept up to \<^verbatim>\<open>==\<close>.
\<close>

fun hashable :: "json \<Rightarrow> bool" where
  "hashable (JList _) = False"
| "hashable (JObj _) = False"
| "hashable _ = True"

fun py_set :: "json \<Rightarrow> py_exn + json set" where
  "py_set (JList xs) =
     (if \<forall>x \<in> set xs. hashable x then Inr (norm ` set xs)
      else raise TypeError ''unhashable type'')"
| "py_set (JStr s) = Inr ((\<lambda>c. JStr [c]) ` set s)"
| "py_set (JObj m) = Inr (JStr ` fset (fmdom m))"
| "py_set _ = raise TypeError ''object is not iterable''"

definition scope_subset :: "json \<Rightarrow> json \<Rightarrow> py_exn + bool" where
  "scope_subset child_scope parent_scope =
     ebind (py_get child_scope ''resource'' JNull) (\<lambda>rc.
     ebind (py_get parent_scope ''resource'' JNull) (\<lambda>rp.
       if \<not> py_eq rc rp then Inr False
       else
         ebind (py_get child_scope ''actions'' (JList [])) (\<lambda>ac.
         ebind (py_set ac) (\<lambda>child_actions.
         ebind (py_get parent_scope ''actions'' (JList [])) (\<lambda>ap.
         ebind (py_set ap) (\<lambda>parent_actions.
           Inr (child_actions \<subseteq> parent_actions)))))))"

text \<open>
  The body of the loop over the chain is a sequence of checks on the verified payload;
  each either returns a result from the function (\<open>Some\<close>) or lets the next one run.
\<close>

definition and_then ::
  "py_exn + result option \<Rightarrow> (py_exn + result option) \<Rightarrow> py_exn + result option" where
  "and_then s k = ebind s (\<lambda>r. case r of Some x \<Rightarrow> Inr (Some x) | None \<Rightarrow> k)"

definition index_info :: "nat \<Rightarrow> json" where
  "index_info i = obj [(''index'', JInt (int i))]"

definition error_info :: "nat \<Rightarrow> string \<Rightarrow> json" where
  "error_info i msg = obj [(''index'', JInt (int i)), (''error'', JStr msg)]"

definition dg_temporal :: "int \<Rightarrow> nat \<Rightarrow> json \<Rightarrow> py_exn + result option" where
  "dg_temporal now i payload =
     ebind (py_get payload ''nbf'' (JInt 0)) (\<lambda>nbf.
     ebind (py_lt (JInt now) nbf) (\<lambda>early.
       if early then Inr (Some (False, ErrorCode_DG_TIME, index_info i))
       else
         ebind (py_get payload ''exp'' (JInt 0)) (\<lambda>exp.
         ebind (py_lt exp (JInt now)) (\<lambda>late.
           if late then Inr (Some (False, ErrorCode_DG_TIME, index_info i))
           else Inr None))))"

definition dg_status :: "env \<Rightarrow> json \<Rightarrow> nat \<Rightarrow> json \<Rightarrow> py_exn + result option" where
  "dg_status e policy i payload =
     ebind (py_get payload ''dg'' (JObj fmempty)) (\<lambda>d.
     ebind (py_get d ''status'' (JObj fmempty)) (\<lambda>dg_status.
     ebind (py_get dg_status ''url'' (JStr [])) (\<lambda>status_url.
     ebind (py_get policy ''status_required'' (JBool True)) (\<lambda>status_required.
       if truthy status_url then
         (case ebind (fetch_status (status_store e) status_url)
                 (\<lambda>status_doc. is_revoked status_doc (JInt 0)) of
            Inr revoked \<Rightarrow>
              if revoked then Inr (Some (False, ErrorCode_DG_REVOKED, index_info i))
              else Inr None
          | Inl (c, msg) \<Rightarrow>
              if c = StatusError then
                (if truthy status_required
                 then Inr (Some (False, ErrorCode_STATUS_FETCH_ERROR, error_info i msg))
                 else Inr None)
              else Inl (c, msg))
       else Inr None))))"

definition dg_key_binding :: "env \<Rightarrow> string \<Rightarrow> nat \<Rightarrow> json \<Rightarrow> py_exn + result option" where
  "dg_key_binding e jwks_path i payload =
     ebind (py_get payload ''dg'' (JObj fmempty)) (\<lambda>d.
     ebind (py_get d ''key_binding'' (JObj fmempty)) (\<lambda>key_binding.
       if truthy key_binding then
         ebind (py_get key_binding ''kid'' JNull) (\<lambda>kid.
           if \<not> truthy kid then
             Inr (Some (False, ErrorCode_KEY_BINDING_UNVERIFIED,
                        obj [(''index'', JInt (int i)), (''reason'', JStr ''missing_kid'')]))
           else
             ebind (py_get payload ''sub'' (JStr [])) (\<lambda>delegate_subject.
               if truthy delegate_subject then
                 ebind (key_exists_in_jwks e jwks_path kid) (\<lambda>found. Inr None)
               else Inr None))
       else Inr None))"

text \<open>
  The scope check reads \<^verbatim>\<open>parsed_delegations[i-1]\<close>, the list to which the payload of
  the current element has already been appended.
\<close>

definition dg_scope :: "nat \<Rightarrow> json \<Rightarrow> json list \<Rightarrow> py_exn + result option" where
  "dg_scope i payload parsed_delegations =
     (if i > 0 then
        ebind (py_get payload ''dg'' (JObj fmempty)) (\<lambda>d.
        ebind (py_get d ''scope'' (JObj fmempty)) (\<lambda>current_scope.
        ebind (py_nth parsed_delegations (int i - 1)) (\<lambda>previous.
        ebind (py_get previous ''dg'' (JObj fmempty)) (\<lambda>pd.
        ebind (py_get pd ''scope'' (JObj fmempty)) (\<lambda>previous_scope.
        ebind (scope_subset current_scope previous_scope) (\<lambda>contained.
          if \<not> contained
          then Inr (Some (False, ErrorCode_DG_SCOPE_ESCALATION, index_info i))
          else Inr None))))))
      else Inr None)"

definition dg_checks ::
  "env \<Rightarrow> string \<Rightarrow> json \<Rightarrow> int \<Rightarrow> nat \<Rightarrow> json list \<Rightarrow> json \<Rightarrow> py_exn + result option" where
  "dg_checks e jwks_path policy now i parsed payload =
     and_then (dg_temporal now i payload)
    (and_then (dg_status e policy i payload)
    (and_then (dg_key_binding e jwks_path i payload)
              (dg_scope i payload (parsed @ [payload]))))"

text \<open>
  One turn of the loop, with its \<^verbatim>\<open>try\<close>: the function returns, or the payload joins
  the parsed delegations and the loop goes on.
\<close>

datatype step = Return result | Continue json

definition verify_dg ::
  "env \<Rightarrow> string \<Rightarrow> json \<Rightarrow> int \<Rightarrow> nat \<Rightarrow> json list \<Rightarrow> json \<Rightarrow> step" where
  "verify_dg e jwks_path policy now i parsed dg =
     (case
        ebind (py_index dg ''raw'') (\<lambda>token.
        ebind (verify_jws e token jwks_path) (\<lambda>(header, payload).
        ebind (dg_checks e jwks_path policy now i parsed payload) (\<lambda>r.
          Inr (r, payload))))
      of
        Inl (c, msg) \<Rightarrow>
          if is_crypto_error c then Return (False, ErrorCode_STRUCT, error_info i msg)
          else Return (False, ErrorCode_INTERNAL, error_info i msg)
      | Inr (Some r, payload) \<Rightarrow> Return r
      | Inr (None, payload) \<Rightarrow> Continue payload)"

fun dg_loop ::
  "env \<Rightarrow> string \<Rightarrow> json \<Rightarrow> int \<Rightarrow> nat \<Rightarrow> json list \<Rightarrow> json list \<Rightarrow> result + json list" where
  "dg_loop e jwks_path policy now i parsed [] = Inr parsed"
| "dg_loop e jwks_path policy now i parsed (dg # rest) =
     (case verify_dg e jwks_path policy now i parsed dg of
        Return r \<Rightarrow> Inl r
      | Continue payload \<Rightarrow> dg_loop e jwks_path policy now (Suc i) (parsed @ [payload]) rest)"

text \<open>
  The anchoring after the loop. The global anchor instance is \<open>None\<close> when no ledger
  is configured; anchoring changes it.
\<close>

definition anchor_stage ::
  "env \<Rightarrow> ledger option \<Rightarrow> json \<Rightarrow> nat \<Rightarrow> string
     \<Rightarrow> (py_exn + result option) \<times> ledger option" where
  "anchor_stage e anchor policy depth chain_fingerprint =
     (case py_get policy ''require_anchor'' (JBool False) of
        Inl x \<Rightarrow> (Inl x, anchor)
      | Inr require_anchor \<Rightarrow>
          if truthy require_anchor then
            (case anchor of
               None \<Rightarrow> (Inr None, anchor)
             | Some L \<Rightarrow>
                 (case verify_anchor L chain_fingerprint None of
                    Inl x \<Rightarrow> (Inl x, anchor)
                  | Inr (is_anchored, error_msg) \<Rightarrow>
                      if \<not> is_anchored then
                        (case py_get policy ''id'' (JStr ''unknown'') of
                           Inl x \<Rightarrow> (Inl x, anchor)
                         | Inr policy_id \<Rightarrow>
                             (case anchor_chain_fingerprint e L chain_fingerprint
                                     (Some (obj [(''depth'', JInt (int depth)),
                                                 (''policy_id'', policy_id),
                                                 (''timestamp'', JInt (time_meta e))])) of
                                (Inl (c, msg), L') \<Rightarrow>
                                  if c = AnchorError then
                                    (Inr (Some (False, ErrorCode_ANCHOR_VERIFICATION_FAILED,
                                       obj [(''fingerprint'', JStr chain_fingerprint),
                                            (''error'', JStr msg)])), Some L')
                                  else (Inl (c, msg), Some L')
                              | (Inr anchor_proof, L') \<Rightarrow> (Inr None, Some L')))
                      else (Inr None, anchor)))
          else (Inr None, anchor))"

definition chain_fingerprint_of :: "env \<Rightarrow> json list \<Rightarrow> string" where
  "chain_fingerprint_of e parsed_delegations =
     sha256_hex e (concat (map (json_dumps e) parsed_delegations))"

definition verify_delegation_chain ::
  "env \<Rightarrow> ledger option \<Rightarrow> json \<Rightarrow> string \<Rightarrow> json \<Rightarrow> (py_exn + result) \<times> ledger option" where
  "verify_delegation_chain e anchor delta jwks_path policy =
     (if \<not> truthy delta then (Inr (True, ErrorCode_OK, obj [(''depth'', JInt 0)]), anchor)
      else case py_get policy ''max_delegation_depth'' (JInt 3) of
        Inl x \<Rightarrow> (Inl x, anchor)
      | Inr max_depth \<Rightarrow>
      (case py_len delta of
        Inl x \<Rightarrow> (Inl x, anchor)
      | Inr n \<Rightarrow>
      (case py_lt max_depth (JInt (int n)) of
        Inl x \<Rightarrow> (Inl x, anchor)
      | Inr too_deep \<Rightarrow>
          if too_deep then
            (Inr (False, ErrorCode_DG_DEPTH,
                  obj [(''max_depth'', max_depth), (''actual'', JInt (int n))]), anchor)
          else
      (case py_iter delta of
        Inl x \<Rightarrow> (Inl x, anchor)
      | Inr dgs \<Rightarrow>
      (case dg_loop e jwks_path policy (time_dg e) 0 [] dgs of
        Inl r \<Rightarrow> (Inr r, anchor)
      | Inr parsed_delegations \<Rightarrow>
          (let chain_fingerprint = chain_fingerprint_of e parsed_delegations in
           case anchor_stage e anchor policy (length parsed_delegations) chain_fingerprint of
             (Inl x, anchor') \<Rightarrow> (Inl x, anchor')
           | (Inr (Some r), anchor') \<Rightarrow> (Inr r, anchor')
           | (Inr None, anchor') \<Rightarrow>
               (Inr (True, ErrorCode_OK,
                     obj [(''depth'', JInt (int (length parsed_delegations))),
                          (''chain_fingerprint'', JStr chain_fingerprint)]), anchor')))))))"

section \<open>Credential verifier and orchestrator (verifier/verifier.py)\<close>

definition vc_alg :: "json \<Rightarrow> json \<Rightarrow> py_exn + result option" where
  "vc_alg policy header =
     ebind (py_get policy ''alg_allowlist'' (JList [JStr ''EdDSA''])) (\<lambda>alg_allowlist.
     ebind (py_get header ''alg'' JNull) (\<lambda>alg.
     ebind (py_in alg alg_allowlist) (\<lambda>allowed.
       if \<not> allowed then
         Inr (Some (False, ErrorCode_ALG, obj [(''alg'', alg), (''allowed'', alg_allowlist)]))
       else Inr None)))"

definition vc_temporal :: "env \<Rightarrow> json \<Rightarrow> json \<Rightarrow> py_exn + result option" where
  "vc_temporal e policy payload =
     (let now = time_vc e in
      ebind (py_get policy ''clock_skew_seconds'' (JInt 5)) (\<lambda>clock_skew.
      ebind (py_get payload ''nbf'' (JInt 0)) (\<lambda>nbf.
      ebind (py_get payload ''exp'' (JInt 0)) (\<lambda>exp.
      ebind (py_sub nbf clock_skew) (\<lambda>lo.
      ebind (py_lt (JInt now) lo) (\<lambda>early.
        if early then
          Inr (Some (False, ErrorCode_VC_TIME,
                     obj [(''now'', JInt now), (''nbf'', nbf), (''exp'', exp)]))
        else
          ebind (py_add exp clock_skew) (\<lambda>hi.
          ebind (py_lt hi (JInt now)) (\<lambda>late.
            if late then
              Inr (Some (False, ErrorCode_VC_TIME,
                         obj [(''now'', JInt now), (''nbf'', nbf), (''exp'', exp)]))
            else Inr None))))))))"

definition vc_status :: "env \<Rightarrow> json \<Rightarrow> json \<Rightarrow> py_exn + result option" where
  "vc_status e policy payload =
     ebind (py_get payload ''vc'' (JObj fmempty)) (\<lambda>vc.
     ebind (py_get vc ''credentialStatus'' (JObj fmempty)) (\<lambda>credential_status.
     ebind (py_get credential_status ''statusListCredential'' (JStr [])) (\<lambda>status_url.
     ebind (py_get credential_status ''statusListIndex'' (JInt 0)) (\<lambda>status_index.
     ebind (py_get policy ''status_required'' (JBool True)) (\<lambda>status_required.
       if truthy status_url then
         (case ebind (fetch_status (status_store e) status_url)
                 (\<lambda>status_doc. is_revoked status_doc status_index) of
            Inr revoked \<Rightarrow>
              if revoked then
                Inr (Some (False, ErrorCode_VC_REVOKED, obj [(''index'', status_index)]))
              else Inr None
          | Inl (c, msg) \<Rightarrow>
              if c = StatusError then
                (if truthy status_required
                 then Inr (Some (False, ErrorCode_STATUS_FETCH_ERROR,
                                 obj [(''error'', JStr msg), (''index'', status_index)]))
                 else Inr None)
              else Inl (c, msg))
       else Inr None)))))"

definition verify_vc_jwt :: "env \<Rightarrow> json \<Rightarrow> string \<Rightarrow> json \<Rightarrow> result" where
  "verify_vc_jwt e vp jwks_issuer policy =
     (case
        ebind (py_index vp ''jwt'') (\<lambda>token.
        ebind (verify_jws e token jwks_issuer) (\<lambda>(header, payload).
        ebind (and_then (vc_alg policy header)
              (and_then (vc_temporal e policy payload)
                        (vc_status e policy payload))) (\<lambda>r.
          case r of
            Some x \<Rightarrow> Inr x
          | None \<Rightarrow>
              ebind (py_get payload ''iss'' JNull) (\<lambda>iss.
              ebind (py_get payload ''sub'' JNull) (\<lambda>sub.
                Inr (True, ErrorCode_OK, obj [(''iss'', iss), (''sub'', sub)]))))))
      of
        Inl (c, msg) \<Rightarrow>
          if is_crypto_error c then (False, ErrorCode_STRUCT, obj [(''error'', JStr msg)])
          else (False, ErrorCode_INTERNAL, obj [(''error'', JStr msg)])
      | Inr r \<Rightarrow> r)"

definition sign_vro :: "env \<Rightarrow> vro \<Rightarrow> string \<Rightarrow> py_exn + json" where
  "sign_vro e v jwks_verifier =
     (case jwt_encode_vro e v of
        None \<Rightarrow> raise ValueError ''Error signing VRO''
      | Some token \<Rightarrow> Inr (obj [(''vro_jwt'', JStr token)]))"

definition required_fields :: "string list" where
  "required_fields = [''I_issuer'', ''I_subject'', ''C'', ''pi'', ''P'', ''S'', ''M'']"

fun first_missing :: "string list \<Rightarrow> json \<Rightarrow> py_exn + string option" where
  "first_missing [] cvc = Inr None"
| "first_missing (field # others) cvc =
     ebind (py_in_str field cvc) (\<lambda>present.
       if \<not> present then Inr (Some field) else first_missing others cvc)"

text \<open>
  The credential stage returns from \<open>verify_cvc\<close> (\<open>Inl\<close>) or yields \<^verbatim>\<open>vc_info\<close>.
\<close>

definition cvc_credential :: "env \<Rightarrow> json \<Rightarrow> string \<Rightarrow> py_exn + (result + json)" where
  "cvc_credential e cvc jwks_issuer =
     ebind (py_index cvc ''M'') (\<lambda>m.
     ebind (py_get m ''profile_hint'' (JStr ''VC-JWT'')) (\<lambda>profile.
       if py_eq profile (JStr ''VC-JWT'') then
         ebind (py_get m ''raw_vc_jwt'' (JStr [])) (\<lambda>raw_vc_jwt.
           if \<not> truthy raw_vc_jwt then
             Inr (Inl (False, ErrorCode_STRUCT, obj [(''msg'', JStr ''missing raw_vc_jwt in M'')]))
           else
             ebind (py_index cvc ''P'') (\<lambda>policy.
               case verify_vc_jwt e (obj [(''jwt'', raw_vc_jwt)]) jwks_issuer policy of
                 (success, code, vc_info) \<Rightarrow>
                   if \<not> success then
                     Inr (Inl (False, code, obj [(''stage'', JStr ''vc''), (''info'', vc_info)]))
                   else Inr (Inr vc_info)))
       else if py_eq profile (JStr ''VC-LD'') then
         ebind (py_get m ''raw_vc_ld'' (JObj fmempty)) (\<lambda>raw_vc_ld.
           if \<not> truthy raw_vc_ld then
             Inr (Inl (False, ErrorCode_STRUCT, obj [(''msg'', JStr ''missing raw_vc_ld in M'')]))
           else
             ebind (py_index cvc ''I_issuer'') (\<lambda>issuer_id.
             ebind (py_index cvc ''I_subject'') (\<lambda>subject_id.
               Inr (Inr (obj [(''iss'', issuer_id), (''sub'', subject_id)])))))
       else
         Inr (Inl (False, ErrorCode_FORMAT_ERROR,
                   obj [(''msg'', JStr (''Unsupported profile: '' @ py_str e profile))]))))"

fun is_str :: "json \<Rightarrow> bool" where
  "is_str (JStr _) = True"
| "is_str _ = False"

definition cvc_holder_binding :: "json \<Rightarrow> py_exn + result option" where
  "cvc_holder_binding cvc =
     ebind (py_index cvc ''P'') (\<lambda>policy.
     ebind (py_get policy ''holder_binding_required'' (JBool True)) (\<lambda>required.
       if truthy required then
         ebind (py_index cvc ''M'') (\<lambda>m.
         ebind (py_get m ''holder_binding'' (JObj fmempty)) (\<lambda>holder_binding.
           if \<not> truthy holder_binding then
             Inr (Some (False, ErrorCode_HOLDER_BINDING,
                        obj [(''reason'', JStr ''missing_holder_binding'')]))
           else
             ebind (py_get holder_binding ''proof'' JNull) (\<lambda>proof.
               if \<not> truthy proof \<or> \<not> is_str proof then
                 Inr (Some (False, ErrorCode_HOLDER_BINDING,
                            obj [(''reason'', JStr ''invalid_proof_structure'')]))
               else Inr None)))
       else Inr None))"

definition build_vro :: "json \<Rightarrow> json \<Rightarrow> json \<Rightarrow> py_exn + vro" where
  "build_vro cvc vc_info dg_info =
     ebind (py_index cvc ''M'') (\<lambda>m.
     ebind (py_index m ''request_id'') (\<lambda>request_id.
     ebind (py_index cvc ''P'') (\<lambda>policy.
     ebind (py_index policy ''id'') (\<lambda>policy_id.
     ebind (py_index vc_info ''iss'') (\<lambda>iss.
     ebind (py_index vc_info ''sub'') (\<lambda>sub.
     ebind (py_get dg_info ''depth'' (JInt 0)) (\<lambda>depth.
     ebind (py_get dg_info ''chain_fingerprint'' JNull) (\<lambda>fingerprint.
       Inr \<lparr>vro_cvc_id = request_id,
            vro_timestamp = DETERMINISTIC_TIMESTAMP,
            vro_policy_ref = policy_id,
            vro_issuer = iss,
            vro_subject = sub,
            vro_delegation_chain_depth = depth,
            vro_decision = ''VERIFIED'',
            vro_assurance = ''AAL2'',
            vro_chain_fingerprint = fingerprint\<rparr>))))))))"

text \<open>
  Stages 1 to 5 of \<open>verify_cvc\<close>: an exception on its way to the handler (\<open>Inl\<close>), a
  result returned before the VRO is built, or the VRO.
\<close>

definition verify_cvc_vro ::
  "env \<Rightarrow> ledger option \<Rightarrow> json \<Rightarrow> string \<Rightarrow> (py_exn + (result + vro)) \<times> ledger option" where
  "verify_cvc_vro e anchor cvc jwks_issuer =
     (case first_missing required_fields cvc of
        Inl x \<Rightarrow> (Inl x, anchor)
      | Inr (Some field) \<Rightarrow>
          (Inr (Inl (False, ErrorCode_STRUCT, obj [(''msg'', JStr (''missing '' @ field))])),
           anchor)
      | Inr None \<Rightarrow>
      (case cvc_credential e cvc jwks_issuer of
        Inl x \<Rightarrow> (Inl x, anchor)
      | Inr (Inl r) \<Rightarrow> (Inr (Inl r), anchor)
      | Inr (Inr vc_info) \<Rightarrow>
      (case py_get cvc ''Delta'' (JList []) of
        Inl x \<Rightarrow> (Inl x, anchor)
      | Inr delta \<Rightarrow>
      (case py_index cvc ''P'' of
        Inl x \<Rightarrow> (Inl x, anchor)
      | Inr policy \<Rightarrow>
      (case verify_delegation_chain e anchor delta jwks_issuer policy of
        (Inl x, anchor') \<Rightarrow> (Inl x, anchor')
      | (Inr (success, code, dg_info), anchor') \<Rightarrow>
          if \<not> success then
            (Inr (Inl (False, code, obj [(''stage'', JStr ''dg''), (''info'', dg_info)])),
             anchor')
          else
      (case cvc_holder_binding cvc of
        Inl x \<Rightarrow> (Inl x, anchor')
      | Inr (Some r) \<Rightarrow> (Inr (Inl r), anchor')
      | Inr None \<Rightarrow>
      (case build_vro cvc vc_info dg_info of
        Inl x \<Rightarrow> (Inl x, anchor')
      | Inr v \<Rightarrow> (Inr (Inr v), anchor'))))))))"

definition verify_cvc ::
  "env \<Rightarrow> ledger option \<Rightarrow> json \<Rightarrow> string \<Rightarrow> string \<Rightarrow> result \<times> ledger option" where
  "verify_cvc e anchor cvc jwks_issuer jwks_verifier =
     (case verify_cvc_vro e anchor cvc jwks_issuer of
        (Inl (c, msg), anchor') \<Rightarrow>
          ((False, ErrorCode_INTERNAL, obj [(''error'', JStr msg)]), anchor')
      | (Inr (Inl r), anchor') \<Rightarrow> (r, anchor')
      | (Inr (Inr v), anchor') \<Rightarrow>
          (case sign_vro e v jwks_verifier of
             Inl (c, msg) \<Rightarrow>
               ((False, ErrorCode_INTERNAL, obj [(''error'', JStr msg)]), anchor')
           | Inr signed_vro \<Rightarrow> ((True, ErrorCode_OK, signed_vro), anchor')))"

section \<open>Predicates and example data for the properties\<close>

text \<open>
  The ledger is consistent when every anchored fingerprint has a block number that
  points into the chain, at the entry carrying that fingerprint.
\<close>

definition ledger_ok :: "ledger \<Rightarrow> bool" where
  "ledger_ok L =
     (\<forall>f p. in_memory_anchors L f = Some p \<longrightarrow>
        1 \<le> ap_block_number p \<and> ap_block_number p \<le> int (length (chain L)) \<and>
        ce_fingerprint (chain L ! nat (ap_block_number p - 1)) = f)"

text \<open>
  What the checks read from an element of the chain and from a payload: the payload
  that \<open>verify_jws\<close> returns for the element's raw token, and the scope, the status URL
  and the key binding under \<^verbatim>\<open>dg\<close>; for a credential, the status URL and index under
  \<^verbatim>\<open>vc.credentialStatus\<close>.
\<close>

definition payload_of :: "env \<Rightarrow> string \<Rightarrow> json \<Rightarrow> py_exn + json" where
  "payload_of e jwks_path dg =
     ebind (py_index dg ''raw'') (\<lambda>token.
     ebind (verify_jws e token jwks_path) (\<lambda>(header, payload). Inr payload))"

definition scope_of :: "json \<Rightarrow> py_exn + json" where
  "scope_of payload =
     ebind (py_get payload ''dg'' (JObj fmempty)) (\<lambda>d. py_get d ''scope'' (JObj fmempty))"

definition dg_status_url :: "json \<Rightarrow> py_exn + json" where
  "dg_status_url payload =
     ebind (py_get payload ''dg'' (JObj fmempty)) (\<lambda>d.
     ebind (py_get d ''status'' (JObj fmempty)) (\<lambda>st. py_get st ''url'' (JStr [])))"

definition key_binding_of :: "json \<Rightarrow> py_exn + json" where
  "key_binding_of payload =
     ebind (py_get payload ''dg'' (JObj fmempty)) (\<lambda>d. py_get d ''key_binding'' (JObj fmempty))"

definition credential_status_of :: "json \<Rightarrow> py_exn + json" where
  "credential_status_of payload =
     ebind (py_get payload ''vc'' (JObj fmempty)) (\<lambda>vc.
       py_get vc ''credentialStatus'' (JObj fmempty))"

text \<open>
  The scope subset rule in the specification's words: the resources match and the
  child's action set is a subset of the parent's.
\<close>

definition scope_contained :: "json \<Rightarrow> json \<Rightarrow> bool" where
  "scope_contained child parent =
     (\<exists>rc rp ac ap.
        py_get child ''resource'' JNull = Inr rc \<and>
        py_get parent ''resource'' JNull = Inr rp \<and>
        py_eq rc rp \<and>
        ebind (py_get child ''actions'' (JList [])) py_set = Inr ac \<and>
        ebind (py_get parent ''actions'' (JList [])) py_set = Inr ap \<and>
        ac \<subseteq> ap)"

text \<open>
  An example world: one issuer key in the JWKS file, a table of the tokens whose
  signature verifies with the payload each carries, both status files in place, and
  stand-ins for the hash, the serialiser and the signer. Its decoder does what
  \<^verbatim>\<open>jwt.decode\<close> does with its default options, as \<open>verify_jws\<close> calls it: a token
  whose \<^verbatim>\<open>nbf\<close> lies after the current time, or whose \<^verbatim>\<open>exp\<close> does not lie after it, is
  refused with an \<^verbatim>\<open>InvalidTokenError\<close>.
\<close>

definition token_immature :: "int \<Rightarrow> json \<Rightarrow> bool" where
  "token_immature now payload =
     (case py_get payload ''nbf'' JNull of Inr (JInt nbf) \<Rightarrow> now < nbf | _ \<Rightarrow> False)"

definition token_expired :: "int \<Rightarrow> json \<Rightarrow> bool" where
  "token_expired now payload =
     (case py_get payload ''exp'' JNull of Inr (JInt exp) \<Rightarrow> exp \<le> now | _ \<Rightarrow> False)"

definition token_current :: "int \<Rightarrow> json \<Rightarrow> bool" where
  "token_current now payload = (\<not> token_immature now payload \<and> \<not> token_expired now payload)"

definition example_jwks :: json where
  "example_jwks =
     obj [(''keys'', JList [obj [(''kid'', JStr ''issuer-key-1''), (''x'', JStr ''AAAA'')]])]"

definition example_env :: "(string \<times> json) list \<Rightarrow> int \<Rightarrow> env" where
  "example_env tokens now =
     \<lparr>jwt_get_unverified_header =
        (\<lambda>t. Inr (obj [(''alg'', JStr ''EdDSA''), (''kid'', JStr ''issuer-key-1'')])),
      jwt_decode =
        (\<lambda>t key. case t of
           JStr s \<Rightarrow>
             (case map_of tokens s of
                Some payload \<Rightarrow>
                  if token_immature now payload
                  then Inl (InvalidTokenError, ''The token is not yet valid (nbf)'')
                  else if token_expired now payload
                  then Inl (InvalidTokenError, ''Signature has expired'')
                  else Inr payload
              | None \<Rightarrow> Inl (InvalidTokenError, ''Signature verification failed''))
         | _ \<Rightarrow> Inl (InvalidTokenError, ''Invalid token type'')),
      jwk_x_to_pem = (\<lambda>x. Some x),
      read_json_file = (\<lambda>path. if path = ''jwks_issuer.json'' then Holds example_jwks else Absent),
      status_store =
        \<lparr>revoked_file = Holds (obj [(''encodedList'', JStr ''/////AAAA'')]),
         active_file = Holds (obj [(''encodedList'', JStr ''AAAA'')])\<rparr>,
      sha256_hex = (\<lambda>s. ''sha256:'' @ s),
      json_dumps = (\<lambda>j. ''{}''),
      py_str = (\<lambda>j. ''?''),
      jwt_encode_vro = (\<lambda>v. Some ''signed-vro''),
      time_vc = now,
      time_dg = now,
      time_meta = now,
      time_anchor = now\<rparr>"

text \<open>
  Delegation grants on one resource, valid from 0 to a given time, the tokens that
  carry them, and the chain element for a token.
\<close>

definition example_grant :: "int \<Rightarrow> string list \<Rightarrow> json" where
  "example_grant exp actions =
     obj [(''nbf'', JInt 0), (''exp'', JInt exp),
          (''dg'', obj [(''scope'',
             obj [(''resource'', JStr ''account:42''), (''actions'', JList (map JStr actions))])])]"

definition example_escalation_no_kid :: json where
  "example_escalation_no_kid =
     obj [(''nbf'', JInt 0), (''exp'', JInt 200),
          (''dg'', obj [(''scope'',
                          obj [(''resource'', JStr ''account:42''),
                               (''actions'', JList [JStr ''view'', JStr ''transfer''])]),
                        (''key_binding'', obj [(''alg'', JStr ''EdDSA'')])])]"

definition example_tokens :: "(string \<times> json) list" where
  "example_tokens =
     [(''dg-root'', example_grant 200 [''view'', ''pay'']),
      (''dg-view'', example_grant 200 [''view'']),
      (''dg-more'', example_grant 200 [''view'', ''transfer'']),
      (''dg-more-no-kid'', example_escalation_no_kid)]"

definition example_dg :: "string \<Rightarrow> json" where
  "example_dg token = obj [(''raw'', JStr token)]"

text \<open>
  Grants that carry a subject, a key binding and a status reference, and their tokens.
\<close>

definition example_bound_grant :: "json \<Rightarrow> int \<Rightarrow> json \<Rightarrow> json" where
  "example_bound_grant key_binding exp status =
     obj [(''nbf'', JInt 0), (''exp'', JInt exp), (''sub'', JStr ''did:agent:7''),
          (''dg'', obj [(''scope'',
                          obj [(''resource'', JStr ''account:42''), (''actions'', JList [JStr ''view''])]),
                        (''key_binding'', key_binding),
                        (''status'', status)])]"

definition example_bound_tokens :: "(string \<times> json) list" where
  "example_bound_tokens =
     [(''dg-nokid'', example_bound_grant (obj [(''alg'', JStr ''EdDSA'')]) 200 (obj [])),
      (''dg-otherkid'', example_bound_grant (obj [(''kid'', JStr ''agent-key-7'')]) 200 (obj [])),
      (''dg-nokid-revoked'',
         example_bound_grant (obj [(''alg'', JStr ''EdDSA'')]) 200
           (obj [(''url'', JStr ''https://status.example/revoked/1'')]))]"

text \<open>
  A credential, a policy that does not require holder binding, the metadata and the
  fields of a CVC for them with no \<^verbatim>\<open>Delta\<close>, the world in which the credential's token
  verifies, and the VRO expected for this CVC.
\<close>

definition example_credential :: json where
  "example_credential =
     obj [(''iss'', JStr ''did:bank''), (''sub'', JStr ''did:agent:7''),
          (''nbf'', JInt 0), (''exp'', JInt 200),
          (''vc'', obj [(''type'', JList [JStr ''VerifiableCredential''])])]"

definition example_policy :: json where
  "example_policy = obj [(''id'', JStr ''P-001''), (''holder_binding_required'', JBool False)]"

definition example_metadata :: json where
  "example_metadata =
     obj [(''request_id'', JStr ''1735600000123''), (''profile_hint'', JStr ''VC-JWT''),
          (''raw_vc_jwt'', JStr ''vc-1'')]"

definition example_cvc_fields :: "(string \<times> json) list" where
  "example_cvc_fields =
     [(''I_issuer'', JStr ''did:bank''), (''I_subject'', JStr ''did:agent:7''),
      (''C'', JList []), (''pi'', JList []), (''P'', example_policy),
      (''S'', obj []), (''M'', example_metadata)]"

definition example_vc_env :: env where
  "example_vc_env = example_env [(''vc-1'', example_credential)] 100"

definition example_vro :: vro where
  "example_vro =
     \<lparr>vro_cvc_id = JStr ''1735600000123'', vro_timestamp = DETERMINISTIC_TIMESTAMP,
      vro_policy_ref = JStr ''P-001'', vro_issuer = JStr ''did:bank'',
      vro_subject = JStr ''did:agent:7'', vro_delegation_chain_depth = JInt 0,
      vro_decision = ''VERIFIED'', vro_assurance = ''AAL2'', vro_chain_fingerprint = JNull\<rparr>"

text \<open>
  Two worlds give the verifier the same inputs when they agree on the PyJWT calls, the
  key conversion, the JSON files, the hash and the serialiser; the clocks, the status
  files, the signer and the ledger may differ.
\<close>

definition same_inputs :: "env \<Rightarrow> env \<Rightarrow> bool" where
  "same_inputs e1 e2 =
     (jwt_get_unverified_header e1 = jwt_get_unverified_header e2 \<and>
      jwt_decode e1 = jwt_decode e2 \<and>
      jwk_x_to_pem e1 = jwk_x_to_pem e2 \<and>
      read_json_file e1 = read_json_file e2 \<and>
      sha256_hex e1 = sha256_hex e2 \<and>
      json_dumps e1 = json_dumps e2)"

text \<open>The world of the example credential at a later time.\<close>

definition example_vc_env_later :: env where
  "example_vc_env_later = example_env [(''vc-1'', example_credential)] 150"

text \<open>The same world with both status files missing.\<close>

definition example_env_no_status :: "(string \<times> json) list \<Rightarrow> int \<Rightarrow> env" where
  "example_env_no_status tokens now =
     (example_env tokens now)\<lparr>status_store := \<lparr>revoked_file = Absent, active_file = Absent\<rparr>\<rparr>"

section \<open>Properties\<close>

subsection \<open>Auxiliary facts\<close>

lemma ebind_Inl [simp]: "ebind (Inl x) f = Inl x"
  by (simp add: ebind_def)

lemma ebind_Inr [simp]: "ebind (Inr x) f = f x"
  by (simp add: ebind_def)

lemma raise_Inl [simp]: "raise c msg = Inl (c, msg)"
  by (simp add: raise_def)

lemma ledger_ok_empty: "ledger_ok empty_ledger"
  by (simp add: ledger_ok_def empty_ledger_def)

lemma anchor_known:
  "f \<noteq> [] \<Longrightarrow> in_memory_anchors L f = Some p \<Longrightarrow>
     anchor_chain_fingerprint e L f m = (Inr p, L)"
  by (simp add: anchor_chain_fingerprint_def)

lemma anchor_fresh:
  assumes "f \<noteq> []" "in_memory_anchors L f = None"
  shows "\<exists>p L1. anchor_chain_fingerprint e L f m = (Inr p, L1) \<and>
     in_memory_anchors L1 = (in_memory_anchors L)(f \<mapsto> p) \<and>
     ap_block_number p = int (length (chain L)) + 1 \<and>
     (\<exists>c. chain L1 = chain L @ [c] \<and> ce_fingerprint c = f)"
  using assms by (simp add: anchor_chain_fingerprint_def Let_def)

lemma anchor_preserves_ok:
  assumes "ledger_ok L" "anchor_chain_fingerprint e L f m = (r, L1)"
  shows "ledger_ok L1"
proof (cases "f = [] \<or> in_memory_anchors L f \<noteq> None")
  case True
  with assms show ?thesis
    by (auto simp: anchor_chain_fingerprint_def split: if_splits)
next
  case False
  then have f: "f \<noteq> []" "in_memory_anchors L f = None" by auto
  from anchor_fresh [OF f, of e m] assms(2) obtain p c where
    m: "in_memory_anchors L1 = (in_memory_anchors L)(f \<mapsto> p)"
    and bn: "ap_block_number p = int (length (chain L)) + 1"
    and ch: "chain L1 = chain L @ [c]" "ce_fingerprint c = f"
    by auto
  show ?thesis
    unfolding ledger_ok_def
  proof (intro allI impI)
    fix g q assume a: "in_memory_anchors L1 g = Some q"
    show "1 \<le> ap_block_number q \<and> ap_block_number q \<le> int (length (chain L1)) \<and>
      ce_fingerprint (chain L1 ! nat (ap_block_number q - 1)) = g"
    proof (cases "g = f")
      case True
      with a m have "q = p" by simp
      with bn ch True show ?thesis by (simp add: nth_append)
    next
      case False
      with a m have "in_memory_anchors L g = Some q" by simp
      with assms(1) have old: "1 \<le> ap_block_number q"
        "ap_block_number q \<le> int (length (chain L))"
        "ce_fingerprint (chain L ! nat (ap_block_number q - 1)) = g"
        by (auto simp: ledger_ok_def)
      then have "nat (ap_block_number q - 1) < length (chain L)" by linarith
      with old ch show ?thesis by (simp add: nth_append)
    qed
  qed
qed

lemma verify_known:
  assumes "f \<noteq> []" "in_memory_anchors L f = Some p"
    "1 \<le> ap_block_number p" "ap_block_number p \<le> int (length (chain L))"
    "ce_fingerprint (chain L ! nat (ap_block_number p - 1)) = f"
  shows "verify_anchor L f None = Inr (True, None)"
  using assms by (simp add: verify_anchor_def Let_def py_nth_def)

lemma and_then_Inl [simp]: "and_then (Inl x) k = Inl x"
  by (simp add: and_then_def)

lemma and_then_Some [simp]: "and_then (Inr (Some r)) k = Inr (Some r)"
  by (simp add: and_then_def)

lemma and_then_None [simp]: "and_then (Inr None) k = k"
  by (simp add: and_then_def)

lemma dg_loop_append:
  "dg_loop e j p now i parsed (pre @ rest) =
     (case dg_loop e j p now i parsed pre of
        Inl r \<Rightarrow> Inl r
      | Inr ps \<Rightarrow> dg_loop e j p now (i + length pre) ps rest)"
  by (induction pre arbitrary: i parsed) (auto split: step.splits sum.splits)

lemma dg_loop_length:
  "dg_loop e j p now i parsed ds = Inr ps \<Longrightarrow> length ps = length parsed + length ds"
  by (induction ds arbitrary: i parsed) (auto split: step.splits)

text \<open>
  When the chain is within the depth bound, the elements before \<open>d\<close> all let the loop
  go on, and the turn for \<open>d\<close> returns, the chain verifier returns that result.
\<close>

lemma chain_returns:
  assumes "py_get policy ''max_delegation_depth'' (JInt 3) = Inr md" "as_int md = Some k"
    "int (length (pre @ d # rest)) \<le> k"
    "dg_loop e jwks policy (time_dg e) 0 [] pre = Inr ps"
    "verify_dg e jwks policy (time_dg e) (length pre) ps d = Return r"
  shows "verify_delegation_chain e anchor (JList (pre @ d # rest)) jwks policy = (Inr r, anchor)"
  using assms by (simp add: verify_delegation_chain_def py_lt_def dg_loop_append)

lemma verify_dg_checks:
  assumes "py_index d ''raw'' = Inr tok" "verify_jws e tok jwks = Inr (h, payload)"
  shows "verify_dg e jwks policy now i parsed d =
     (case dg_checks e jwks policy now i parsed payload of
        Inl (c, msg) \<Rightarrow>
          if is_crypto_error c then Return (False, ErrorCode_STRUCT, error_info i msg)
          else Return (False, ErrorCode_INTERNAL, error_info i msg)
      | Inr (Some r) \<Rightarrow> Return r
      | Inr None \<Rightarrow> Continue payload)"
  using assms by (auto simp: verify_dg_def split: sum.splits option.splits)

lemma example_verify_jws:
  "map_of tokens s = Some p \<Longrightarrow> token_current now p \<Longrightarrow>
   verify_jws (example_env tokens now) (JStr s) ''jwks_issuer.json'' =
     Inr (obj [(''alg'', JStr ''EdDSA''), (''kid'', JStr ''issuer-key-1'')], p)"
  by (simp add: verify_jws_def example_env_def obj_def jwks_get_key_def example_jwks_def
      py_eq_def jwk_to_pem_def token_current_def)

lemma ebind_eq_Inr: "(ebind m f = Inr v) = (\<exists>x. m = Inr x \<and> f x = Inr v)"
  by (cases m) auto

lemma example_expired_jws:
  "map_of tokens s = Some p \<Longrightarrow> \<not> token_immature now p \<Longrightarrow> token_expired now p \<Longrightarrow>
   verify_jws (example_env tokens now) (JStr s) ''jwks_issuer.json'' =
     Inl (CryptoError, ''JWT verification failed: Signature has expired'')"
  by (simp add: verify_jws_def example_env_def obj_def jwks_get_key_def example_jwks_def
      py_eq_def jwk_to_pem_def)

lemma example_no_status_verify_jws:
  "map_of tokens s = Some p \<Longrightarrow> token_current now p \<Longrightarrow>
   verify_jws (example_env_no_status tokens now) (JStr s) ''jwks_issuer.json'' =
     Inr (obj [(''alg'', JStr ''EdDSA''), (''kid'', JStr ''issuer-key-1'')], p)"
  by (simp add: verify_jws_def example_env_def example_env_no_status_def obj_def
      jwks_get_key_def example_jwks_def py_eq_def jwk_to_pem_def token_current_def)

lemmas token_time_defs = token_current_def token_immature_def token_expired_def

lemma example_tokens_current:
  "map_of example_tokens s = Some p \<Longrightarrow> token_current 100 p"
  by (auto simp: example_tokens_def example_grant_def example_escalation_no_kid_def
      token_time_defs obj_def split: if_splits)

lemma example_token_jws:
  "map_of example_tokens s = Some p \<Longrightarrow>
     verify_jws (example_env example_tokens 100) (JStr s) ''jwks_issuer.json'' =
       Inr (obj [(''alg'', JStr ''EdDSA''), (''kid'', JStr ''issuer-key-1'')], p)"
  by (rule example_verify_jws) (simp_all add: example_tokens_current)

lemma example_payload_of:
  "map_of example_tokens s = Some p \<Longrightarrow>
     payload_of (example_env example_tokens 100) ''jwks_issuer.json'' (example_dg s) = Inr p"
  by (simp add: payload_of_def example_dg_def obj_def example_token_jws)

lemma example_scope_of:
  "scope_of (example_grant x as) =
     Inr (obj [(''resource'', JStr ''account:42''), (''actions'', JList (map JStr as))])"
  by (simp add: scope_of_def example_grant_def obj_def)

lemmas example_eval =
  dg_checks_def dg_temporal_def dg_status_def dg_key_binding_def dg_scope_def scope_subset_def
  obj_def py_lt_def py_nth_def py_eq_def example_grant_def index_info_def
  ErrorCode_DG_TIME_def ErrorCode_DG_SCOPE_ESCALATION_def

lemma example_root_step:
  "verify_dg (example_env example_tokens 100) ''jwks_issuer.json'' (obj []) 100 0 []
      (example_dg ''dg-root'') = Continue (example_grant 200 [''view'', ''pay''])"
proof -
  have "py_index (example_dg ''dg-root'') ''raw'' = Inr (JStr ''dg-root'')"
    by (simp add: example_dg_def obj_def)
  moreover have "map_of example_tokens ''dg-root'' = Some (example_grant 200 [''view'', ''pay''])"
    by (simp add: example_tokens_def)
  ultimately show ?thesis
    by (simp add: verify_dg_checks [OF _ example_token_jws]) (simp add: example_eval)
qed

lemma example_root_loop:
  "dg_loop (example_env example_tokens 100) ''jwks_issuer.json'' (obj []) 100 0 []
      [example_dg ''dg-root''] = Inr [example_grant 200 [''view'', ''pay'']]"
  by (simp add: example_root_step)

lemma example_time: "time_dg (example_env ts now) = now"
  by (simp add: example_env_def)

lemma example_key_binding_of: "key_binding_of (example_bound_grant kb x st) = Inr kb"
  by (simp add: key_binding_of_def example_bound_grant_def obj_def)

lemma example_unknown_kid:
  "key_exists_in_jwks (example_env ts now) ''jwks_issuer.json'' (JStr ''agent-key-7'') = Inr False"
  by (simp add: key_exists_in_jwks_def example_env_def example_jwks_def obj_def py_eq_def)

lemmas example_bound_eval =
  dg_checks_def dg_temporal_def dg_status_def dg_key_binding_def dg_scope_def
  obj_def py_lt_def example_bound_grant_def index_info_def

subsection \<open>Depth bound\<close>

text \<open>
  C2. A non-empty chain longer than the policy's \<^verbatim>\<open>max_delegation_depth\<close> (3 when the
  policy has no such field) fails with E300 (DG_DEPTH), whatever its elements are and
  whatever the keys, the clock, the status files and the ledger hold: no element is
  looked at, and the ledger is left as it was.
\<close>

theorem depth_bound:
  assumes "py_get policy ''max_delegation_depth'' (JInt 3) = Inr max_depth"
    and "as_int max_depth = Some k"
    and "ds \<noteq> []"
    and "k < int (length ds)"
  shows "verify_delegation_chain e anchor (JList ds) jwks_path policy =
      (Inr (False, ''E300'',
            obj [(''max_depth'', max_depth), (''actual'', JInt (int (length ds)))]), anchor)
    \<and> ErrorCode_DG_DEPTH = ''E300''"
  using assms by (simp add: verify_delegation_chain_def py_lt_def ErrorCode_DG_DEPTH_def)

theorem depth_bound_witness:
  "verify_delegation_chain (example_env [] 100) None
      (JList [JNull, JNull, JNull]) ''jwks_issuer.json'' (obj [(''max_delegation_depth'', JInt 2)]) =
     (Inr (False, ''E300'', obj [(''max_depth'', JInt 2), (''actual'', JInt 3)]), None)"
  using depth_bound [of "obj [(''max_delegation_depth'', JInt 2)]" "JInt 2" 2
      "[JNull, JNull, JNull]" "example_env [] 100" None "''jwks_issuer.json''"]
  by (simp add: obj_def)

subsection \<open>Anchor ledger\<close>

text \<open>
  C6. Anchoring a non-empty fingerprint twice, with any metadata and at any two times,
  returns the same proof both times: the second call gives back the stored proof and
  leaves the ledger, chain included, as the first call left it. If the ledger was
  consistent before, or the fingerprint was new to it, \<open>verify_anchor\<close> then answers
  \<open>(True, None)\<close>.
\<close>

theorem anchor_idempotent:
  assumes "f \<noteq> []"
  shows "\<exists>p L1. anchor_chain_fingerprint e1 L f m1 = (Inr p, L1) \<and>
      anchor_chain_fingerprint e2 L1 f m2 = (Inr p, L1) \<and>
      get_anchor_proof L1 f = Some p \<and>
      (ledger_ok L \<or> in_memory_anchors L f = None \<longrightarrow>
         verify_anchor L1 f None = Inr (True, None))"
proof (cases "in_memory_anchors L f")
  case None
  from anchor_fresh [OF assms None, of e1 m1] obtain p L1 c where
    a: "anchor_chain_fingerprint e1 L f m1 = (Inr p, L1)"
    and m: "in_memory_anchors L1 = (in_memory_anchors L)(f \<mapsto> p)"
    and bn: "ap_block_number p = int (length (chain L)) + 1"
    and ch: "chain L1 = chain L @ [c]" "ce_fingerprint c = f"
    by blast
  from m have s: "in_memory_anchors L1 f = Some p" by simp
  have "verify_anchor L1 f None = Inr (True, None)"
    using assms s bn ch by (intro verify_known [where p = p]) simp_all
  with a s anchor_known [OF assms s] show ?thesis
    by (simp add: get_anchor_proof_def)
next
  case (Some p)
  have "ledger_ok L \<Longrightarrow> verify_anchor L f None = Inr (True, None)"
    using assms Some by (intro verify_known [where p = p]) (auto simp: ledger_ok_def)
  with Some anchor_known [OF assms Some] show ?thesis
    by (auto simp: get_anchor_proof_def)
qed

theorem anchor_idempotent_witness:
  "\<exists>p L1. anchor_chain_fingerprint (example_env [] 100) empty_ledger ''c0ffee'' None = (Inr p, L1) \<and>
      anchor_chain_fingerprint (example_env [] 200) L1 ''c0ffee''
        (Some (obj [(''depth'', JInt 1)])) = (Inr p, L1) \<and>
      get_anchor_proof L1 ''c0ffee'' = Some p \<and>
      verify_anchor L1 ''c0ffee'' None = Inr (True, None)"
  using anchor_idempotent [of "''c0ffee''" "example_env [] 100" empty_ledger None
      "example_env [] 200" "Some (obj [(''depth'', JInt 1)])"] ledger_ok_empty
  by simp

subsection \<open>Scope containment\<close>

lemma scope_subset_True_iff: "scope_subset c p = Inr True \<longleftrightarrow> scope_contained c p"
  unfolding scope_subset_def scope_contained_def
  by (cases "py_get c ''resource'' JNull"; cases "py_get p ''resource'' JNull";
      cases "py_get c ''actions'' (JList [])"; cases "py_get p ''actions'' (JList [])")
     (auto simp: ebind_eq_Inr split: if_splits)

lemma and_then_eq_None: "(and_then s k = Inr None) = (s = Inr None \<and> k = Inr None)"
  by (cases s) (auto simp: and_then_def split: option.splits)

lemma and_then_eq_Some:
  "(and_then s k = Inr (Some r)) = (s = Inr (Some r) \<or> s = Inr None \<and> k = Inr (Some r))"
  by (cases s) (auto simp: and_then_def split: option.splits)

lemma dg_temporal_False: "dg_temporal now i p = Inr (Some r) \<Longrightarrow> \<not> fst r"
  by (auto simp: dg_temporal_def ebind_eq_Inr split: if_splits)

lemma dg_status_False: "dg_status e pol i p = Inr (Some r) \<Longrightarrow> \<not> fst r"
  by (auto simp: dg_status_def ebind_eq_Inr split: if_splits sum.splits)

lemma dg_key_binding_False: "dg_key_binding e j i p = Inr (Some r) \<Longrightarrow> \<not> fst r"
  by (auto simp: dg_key_binding_def ebind_eq_Inr split: if_splits)

lemma dg_scope_False: "dg_scope i p pds = Inr (Some r) \<Longrightarrow> \<not> fst r"
  by (auto simp: dg_scope_def ebind_eq_Inr split: if_splits)

lemma dg_checks_False: "dg_checks e j pol now i parsed p = Inr (Some r) \<Longrightarrow> \<not> fst r"
  by (auto simp: dg_checks_def and_then_eq_Some
      dest: dg_temporal_False dg_status_False dg_key_binding_False dg_scope_False)

lemma verify_dg_False: "verify_dg e j pol now i parsed d = Return r \<Longrightarrow> \<not> fst r"
  by (auto simp: verify_dg_def split: sum.splits option.splits if_splits prod.splits
      dest: dg_checks_False simp: ebind_eq_Inr)

lemma dg_loop_False: "dg_loop e j pol now i parsed ds = Inl r \<Longrightarrow> \<not> fst r"
  by (induction ds arbitrary: i parsed) (auto split: step.splits dest: verify_dg_False)

lemma verify_dg_Continue:
  "verify_dg e j pol now i parsed d = Continue p \<Longrightarrow>
     payload_of e j d = Inr p \<and> dg_checks e j pol now i parsed p = Inr None"
  by (auto simp: verify_dg_def payload_of_def split: sum.splits option.splits if_splits prod.splits
      simp: ebind_eq_Inr)

lemma dg_loop_payloads:
  "dg_loop e j pol now i parsed ds = Inr final \<Longrightarrow>
     \<exists>ps. final = parsed @ ps \<and> length ps = length ds \<and>
       (\<forall>n<length ds. payload_of e j (ds ! n) = Inr (ps ! n) \<and>
          dg_scope (i + n) (ps ! n) (parsed @ take (Suc n) ps) = Inr None)"
proof (induction ds arbitrary: i parsed)
  case Nil
  then show ?case by simp
next
  case (Cons d ds)
  from Cons.prems obtain p where
    step: "verify_dg e j pol now i parsed d = Continue p"
    and rest: "dg_loop e j pol now (Suc i) (parsed @ [p]) ds = Inr final"
    by (auto split: step.splits)
  from verify_dg_Continue [OF step] have
    pay: "payload_of e j d = Inr p" and sc: "dg_scope i p (parsed @ [p]) = Inr None"
    by (auto simp: dg_checks_def and_then_eq_None)
  from Cons.IH [OF rest] obtain qs where
    qs: "final = (parsed @ [p]) @ qs" "length qs = length ds"
    "\<forall>n<length ds. payload_of e j (ds ! n) = Inr (qs ! n) \<and>
          dg_scope (Suc i + n) (qs ! n) ((parsed @ [p]) @ take (Suc n) qs) = Inr None"
    by blast
  have "\<forall>n<length (d # ds). payload_of e j ((d # ds) ! n) = Inr ((p # qs) ! n) \<and>
          dg_scope (i + n) ((p # qs) ! n) (parsed @ take (Suc n) (p # qs)) = Inr None"
  proof (intro allI impI)
    fix n assume n: "n < length (d # ds)"
    show "payload_of e j ((d # ds) ! n) = Inr ((p # qs) ! n) \<and>
          dg_scope (i + n) ((p # qs) ! n) (parsed @ take (Suc n) (p # qs)) = Inr None"
    proof (cases n)
      case 0
      with pay sc show ?thesis by simp
    next
      case (Suc m)
      with n qs(3) show ?thesis by simp
    qed
  qed
  with qs(1,2) show ?case
    by (intro exI [of _ "p # qs"]) simp
qed

lemma py_nth_nat: "n < length xs \<Longrightarrow> py_nth xs (int n) = Inr (xs ! n)"
  by (simp add: py_nth_def)

lemma dg_scope_None:
  assumes "0 < i" "dg_scope i payload pds = Inr None"
  shows "\<exists>sc prev sp. scope_of payload = Inr sc \<and> py_nth pds (int i - 1) = Inr prev \<and>
     scope_of prev = Inr sp \<and> scope_subset sc sp = Inr True"
  using assms
  by (auto simp: dg_scope_def scope_of_def ebind_eq_Inr split: if_splits)

lemma chain_success_loop:
  assumes "verify_delegation_chain e anchor (JList ds) j pol = (Inr (True, code, info), anchor')"
  shows "\<exists>final. dg_loop e j pol (time_dg e) 0 [] ds = Inr final"
proof (cases ds)
  case Nil
  then show ?thesis by simp
next
  case (Cons d ds')
  show ?thesis
  proof (cases "dg_loop e j pol (time_dg e) 0 [] ds")
    case (Inl r)
    from dg_loop_False [OF Inl] have "\<not> fst r" .
    with assms Cons Inl show ?thesis
      by (auto simp: verify_delegation_chain_def split: sum.splits if_splits)
  next
    case (Inr final)
    then show ?thesis by blast
  qed
qed

lemma chain_success_contained:
  assumes "verify_delegation_chain e anchor (JList ds) j pol = (Inr (True, code, info), anchor')"
    and "0 < i" "i < length ds"
  shows "\<exists>pc pp sc sp. payload_of e j (ds ! i) = Inr pc \<and> payload_of e j (ds ! (i - 1)) = Inr pp \<and>
      scope_of pc = Inr sc \<and> scope_of pp = Inr sp \<and> scope_contained sc sp"
proof -
  from chain_success_loop [OF assms(1)] obtain final where
    "dg_loop e j pol (time_dg e) 0 [] ds = Inr final" by blast
  from dg_loop_payloads [OF this] have len: "length final = length ds"
    and inv: "\<forall>n<length ds. payload_of e j (ds ! n) = Inr (final ! n) \<and>
          dg_scope n (final ! n) (take (Suc n) final) = Inr None"
    by auto
  from inv assms(3) have pc: "payload_of e j (ds ! i) = Inr (final ! i)"
    and sc: "dg_scope i (final ! i) (take (Suc i) final) = Inr None" by auto
  from inv assms(2,3) have pp: "payload_of e j (ds ! (i - 1)) = Inr (final ! (i - 1))" by simp
  have nth: "py_nth (take (Suc i) final) (int i - 1) = Inr (final ! (i - 1))"
  proof -
    have "int i - 1 = int (i - 1)" using assms(2) by simp
    moreover have "i - 1 < length (take (Suc i) final)" using assms(2,3) len by simp
    ultimately have "py_nth (take (Suc i) final) (int i - 1) = Inr (take (Suc i) final ! (i - 1))"
      using py_nth_nat by metis
    then show ?thesis using assms(2) by simp
  qed
  from dg_scope_None [OF assms(2) sc] nth obtain s1 s2 where
    "scope_of (final ! i) = Inr s1" "scope_of (final ! (i - 1)) = Inr s2"
    "scope_subset s1 s2 = Inr True"
    by auto
  with pc pp show ?thesis
    by (auto simp: scope_subset_True_iff)
qed

lemma scope_violation_returns:
  assumes depth: "py_get policy ''max_delegation_depth'' (JInt 3) = Inr md" "as_int md = Some k"
      "int (length (pre @ d # rest)) \<le> k"
    and prefix: "dg_loop e j policy (time_dg e) 0 [] pre = Inr ps" "pre \<noteq> []"
    and elem: "py_index d ''raw'' = Inr tok" "verify_jws e tok j = Inr (h, payload)"
    and others: "dg_temporal (time_dg e) (length pre) payload = Inr None"
      "dg_status e policy (length pre) payload = Inr None"
      "dg_key_binding e j (length pre) payload = Inr None"
    and viol: "scope_of payload = Inr sc" "payload_of e j (last pre) = Inr pp"
      "scope_of pp = Inr sp" "scope_subset sc sp = Inr False"
  shows "verify_delegation_chain e anchor (JList (pre @ d # rest)) j policy =
     (Inr (False, ''E400'', index_info (length pre)), anchor)"
proof -
  from dg_loop_payloads [OF prefix(1)] have len: "length ps = length pre"
    and inv: "\<forall>n<length pre. payload_of e j (pre ! n) = Inr (ps ! n)"
    by auto
  from prefix(2) have pos: "0 < length pre" by simp
  then have "payload_of e j (pre ! (length pre - 1)) = Inr (ps ! (length pre - 1))"
    using inv by simp
  with viol(2) prefix(2) have pp: "ps ! (length pre - 1) = pp"
    by (simp add: last_conv_nth)
  have "int (length pre) - 1 = int (length pre - 1)" using prefix(2) by (cases pre) simp_all
  moreover have "length pre - 1 < length (ps @ [payload])" using len by simp
  ultimately have "py_nth (ps @ [payload]) (int (length pre) - 1) =
      Inr ((ps @ [payload]) ! (length pre - 1))"
    using py_nth_nat by metis
  with pp len pos have nth: "py_nth (ps @ [payload]) (int (length pre) - 1) = Inr pp"
    by (simp add: nth_append)
  from viol(1,3) obtain dg1 dg2 where
    s1: "py_get payload ''dg'' (JObj fmempty) = Inr dg1" "py_get dg1 ''scope'' (JObj fmempty) = Inr sc"
    and s2: "py_get pp ''dg'' (JObj fmempty) = Inr dg2" "py_get dg2 ''scope'' (JObj fmempty) = Inr sp"
    by (auto simp: scope_of_def ebind_eq_Inr)
  have "dg_scope (length pre) payload (ps @ [payload]) =
      Inr (Some (False, ''E400'', index_info (length pre)))"
    using pos nth s1 s2 viol(4) by (simp add: dg_scope_def ErrorCode_DG_SCOPE_ESCALATION_def)
  then have "verify_dg e j policy (time_dg e) (length pre) ps d =
      Return (False, ''E400'', index_info (length pre))"
    using elem others by (simp add: verify_dg_checks [of d tok e j h payload] dg_checks_def)
  with depth prefix(1) show ?thesis
    by (intro chain_returns [where md = md and k = k and ps = ps]) simp_all
qed

text \<open>
  C1. When the chain verifier succeeds on a chain, the scope in the verified payload
  of every element after the first is contained in the scope of the element before
  it: same resource, actions a subset. When the chain is within the depth bound, the
  elements before index \<open>i > 0\<close> pass every check, and the element at \<open>i\<close> passes the
  signature, time, status and key-binding checks while \<open>scope_subset\<close> answers false
  for its scope against its predecessor's, the result is failure E400
  (DG_SCOPE_ESCALATION) with index \<open>i\<close>, and the ledger is untouched.
\<close>

theorem scope_containment:
  "(verify_delegation_chain e anchor (JList ds) j policy = (Inr (True, code, info), anchor') \<longrightarrow>
      (\<forall>i. 0 < i \<and> i < length ds \<longrightarrow>
         (\<exists>pc pp sc sp. payload_of e j (ds ! i) = Inr pc \<and>
            payload_of e j (ds ! (i - 1)) = Inr pp \<and>
            scope_of pc = Inr sc \<and> scope_of pp = Inr sp \<and> scope_contained sc sp))) \<and>
   (py_get policy ''max_delegation_depth'' (JInt 3) = Inr md \<and> as_int md = Some k \<and>
    int (length (pre @ d # rest)) \<le> k \<and>
    dg_loop e j policy (time_dg e) 0 [] pre = Inr ps \<and> pre \<noteq> [] \<and>
    py_index d ''raw'' = Inr tok \<and> verify_jws e tok j = Inr (h, payload) \<and>
    dg_temporal (time_dg e) (length pre) payload = Inr None \<and>
    dg_status e policy (length pre) payload = Inr None \<and>
    dg_key_binding e j (length pre) payload = Inr None \<and>
    scope_of payload = Inr sc' \<and> payload_of e j (last pre) = Inr pp' \<and>
    scope_of pp' = Inr sp' \<and> scope_subset sc' sp' = Inr False \<longrightarrow>
      \<not> scope_contained sc' sp' \<and>
      verify_delegation_chain e anchor (JList (pre @ d # rest)) j policy =
        (Inr (False, ''E400'', index_info (length pre)), anchor))"
proof (intro conjI impI allI)
  fix i
  assume "verify_delegation_chain e anchor (JList ds) j policy = (Inr (True, code, info), anchor')"
    and "0 < i \<and> i < length ds"
  then show "\<exists>pc pp sc sp. payload_of e j (ds ! i) = Inr pc \<and>
            payload_of e j (ds ! (i - 1)) = Inr pp \<and>
            scope_of pc = Inr sc \<and> scope_of pp = Inr sp \<and> scope_contained sc sp"
    using chain_success_contained by blast
next
  assume r: "py_get policy ''max_delegation_depth'' (JInt 3) = Inr md \<and> as_int md = Some k \<and>
    int (length (pre @ d # rest)) \<le> k \<and>
    dg_loop e j policy (time_dg e) 0 [] pre = Inr ps \<and> pre \<noteq> [] \<and>
    py_index d ''raw'' = Inr tok \<and> verify_jws e tok j = Inr (h, payload) \<and>
    dg_temporal (time_dg e) (length pre) payload = Inr None \<and>
    dg_status e policy (length pre) payload = Inr None \<and>
    dg_key_binding e j (length pre) payload = Inr None \<and>
    scope_of payload = Inr sc' \<and> payload_of e j (last pre) = Inr pp' \<and>
    scope_of pp' = Inr sp' \<and> scope_subset sc' sp' = Inr False"
  then show "\<not> scope_contained sc' sp'"
    using scope_subset_True_iff [of sc' sp'] by simp
  from r show "verify_delegation_chain e anchor (JList (pre @ d # rest)) j policy =
        (Inr (False, ''E400'', index_info (length pre)), anchor)"
    by (intro scope_violation_returns [where md = md and k = k and ps = ps and tok = tok
          and h = h and payload = payload and sc = sc' and pp = pp' and sp = sp']) simp_all
qed

theorem scope_containment_witness:
  "(\<exists>sc sp.
      scope_of (example_grant 200 [''view'']) = Inr sc \<and>
      scope_of (example_grant 200 [''view'', ''pay'']) = Inr sp \<and> scope_contained sc sp) \<and>
   verify_delegation_chain (example_env example_tokens 100) None
      (JList [example_dg ''dg-root'', example_dg ''dg-more''])
      ''jwks_issuer.json'' (obj []) =
     (Inr (False, ''E400'', obj [(''index'', JInt 1)]), None)"
proof -
  let ?e = "example_env example_tokens 100"
  let ?j = "''jwks_issuer.json''"
  let ?root = "example_grant 200 [''view'', ''pay'']"
  let ?view = "example_grant 200 [''view'']"
  let ?more = "example_grant 200 [''view'', ''transfer'']"
  have md: "py_get (obj []) ''max_delegation_depth'' (JInt 3) = Inr (JInt 3)"
    by (simp add: obj_def)
  have p_root: "payload_of ?e ?j (example_dg ''dg-root'') = Inr ?root"
    and p_view: "payload_of ?e ?j (example_dg ''dg-view'') = Inr ?view"
    by (rule example_payload_of, simp add: example_tokens_def)+
  have t_view: "map_of example_tokens ''dg-view'' = Some ?view"
    and t_more: "map_of example_tokens ''dg-more'' = Some ?more"
    by (simp_all add: example_tokens_def)
  have r_view: "py_index (example_dg ''dg-view'') ''raw'' = Inr (JStr ''dg-view'')"
    and r_more: "py_index (example_dg ''dg-more'') ''raw'' = Inr (JStr ''dg-more'')"
    by (simp_all add: example_dg_def obj_def)
  have s_view: "verify_dg ?e ?j (obj []) 100 (Suc 0) [?root] (example_dg ''dg-view'') = Continue ?view"
    by (simp add: verify_dg_checks [OF r_view example_token_jws [OF t_view]])
       (simp add: example_eval)
  have ok: "verify_delegation_chain ?e None (JList [example_dg ''dg-root'', example_dg ''dg-view''])
      ?j (obj []) =
      (Inr (True, ''OK'', obj [(''depth'', JInt 2),
         (''chain_fingerprint'', JStr (chain_fingerprint_of ?e [?root, ?view]))]), None)"
    using md by (simp add: verify_delegation_chain_def py_lt_def example_time example_root_step
        s_view anchor_stage_def) (simp add: obj_def ErrorCode_OK_def)
  note w = scope_containment [where e = ?e and j = ?j and policy = "obj []" and anchor = None]
  have "\<exists>pc pp sc sp.
      payload_of ?e ?j ([example_dg ''dg-root'', example_dg ''dg-view''] ! 1) = Inr pc \<and>
      payload_of ?e ?j ([example_dg ''dg-root'', example_dg ''dg-view''] ! (1 - 1)) = Inr pp \<and>
      scope_of pc = Inr sc \<and> scope_of pp = Inr sp \<and> scope_contained sc sp"
    by (rule w [where ds = "[example_dg ''dg-root'', example_dg ''dg-view'']",
          THEN conjunct1, rule_format, OF ok]) simp
  then have a: "\<exists>sc sp. scope_of ?view = Inr sc \<and> scope_of ?root = Inr sp \<and> scope_contained sc sp"
    using p_root p_view by auto
  have others: "dg_temporal 100 (Suc 0) ?more = Inr None" "dg_status ?e (obj []) (Suc 0) ?more = Inr None"
    "dg_key_binding ?e ?j (Suc 0) ?more = Inr None"
    by (simp_all add: example_eval)
  have viol: "scope_subset
      (obj [(''resource'', JStr ''account:42''), (''actions'', JList (map JStr [''view'', ''transfer'']))])
      (obj [(''resource'', JStr ''account:42''), (''actions'', JList (map JStr [''view'', ''pay'']))])
     = Inr False"
    by (simp add: scope_subset_def obj_def py_eq_def)
  have b: "verify_delegation_chain ?e None
      (JList ([example_dg ''dg-root''] @ example_dg ''dg-more'' # [])) ?j (obj []) =
     (Inr (False, ''E400'', index_info (length [example_dg ''dg-root''])), None)"
    using w [where pre = "[example_dg ''dg-root'']" and d = "example_dg ''dg-more''" and rest = "[]"
        and md = "JInt 3" and k = 3 and ps = "[?root]" and tok = "JStr ''dg-more''"
        and payload = ?more and pp' = ?root, THEN conjunct2]
      md example_root_loop r_more example_token_jws [OF t_more] others p_root viol
    by (simp add: example_time example_scope_of)
  from a b show ?thesis by (simp add: index_info_def)
qed


text \<open>
  A chain whose second element escalates the scope and also carries a key binding
  with no \<^verbatim>\<open>kid\<close> fails with E200 (KEY_BINDING_UNVERIFIED), not E400: the key-binding
  check of an element runs before its scope check.
\<close>

theorem scope_containment_counterexample:
  "scope_subset
      (obj [(''resource'', JStr ''account:42''), (''actions'', JList [JStr ''view'', JStr ''transfer''])])
      (obj [(''resource'', JStr ''account:42''), (''actions'', JList [JStr ''view'', JStr ''pay''])])
     = Inr False \<and>
   scope_of example_escalation_no_kid =
     Inr (obj [(''resource'', JStr ''account:42''), (''actions'', JList [JStr ''view'', JStr ''transfer''])]) \<and>
   scope_of (example_grant 200 [''view'', ''pay'']) =
     Inr (obj [(''resource'', JStr ''account:42''), (''actions'', JList [JStr ''view'', JStr ''pay''])]) \<and>
   payload_of (example_env example_tokens 100) ''jwks_issuer.json'' (example_dg ''dg-root'') =
     Inr (example_grant 200 [''view'', ''pay'']) \<and>
   payload_of (example_env example_tokens 100) ''jwks_issuer.json'' (example_dg ''dg-more-no-kid'') =
     Inr example_escalation_no_kid \<and>
   verify_delegation_chain (example_env example_tokens 100) None
      (JList [example_dg ''dg-root'', example_dg ''dg-more-no-kid''])
      ''jwks_issuer.json'' (obj []) =
     (Inr (False, ''E200'', obj [(''index'', JInt 1), (''reason'', JStr ''missing_kid'')]), None)"
proof -
  let ?e = "example_env example_tokens 100"
  have a: "scope_subset
      (obj [(''resource'', JStr ''account:42''), (''actions'', JList [JStr ''view'', JStr ''transfer''])])
      (obj [(''resource'', JStr ''account:42''), (''actions'', JList [JStr ''view'', JStr ''pay''])])
     = Inr False"
    by (simp add: scope_subset_def obj_def py_eq_def)
  have b: "scope_of example_escalation_no_kid =
     Inr (obj [(''resource'', JStr ''account:42''), (''actions'', JList [JStr ''view'', JStr ''transfer''])])"
    by (simp add: scope_of_def example_escalation_no_kid_def obj_def)
  have c: "scope_of (example_grant 200 [''view'', ''pay'']) =
     Inr (obj [(''resource'', JStr ''account:42''), (''actions'', JList [JStr ''view'', JStr ''pay''])])"
    by (simp add: example_scope_of)
  have d: "payload_of ?e ''jwks_issuer.json'' (example_dg ''dg-root'') =
     Inr (example_grant 200 [''view'', ''pay''])"
    and d': "payload_of ?e ''jwks_issuer.json'' (example_dg ''dg-more-no-kid'') =
     Inr example_escalation_no_kid"
    by (rule example_payload_of, simp add: example_tokens_def)+
  have tok: "map_of example_tokens ''dg-more-no-kid'' = Some example_escalation_no_kid"
    by (simp add: example_tokens_def)
  have raw: "py_index (example_dg ''dg-more-no-kid'') ''raw'' = Inr (JStr ''dg-more-no-kid'')"
    by (simp add: example_dg_def obj_def)
  have step: "verify_dg ?e ''jwks_issuer.json'' (obj []) (time_dg ?e) (length [example_dg ''dg-root''])
       [example_grant 200 [''view'', ''pay'']] (example_dg ''dg-more-no-kid'') =
     Return (False, ''E200'', obj [(''index'', JInt 1), (''reason'', JStr ''missing_kid'')])"
    by (simp add: verify_dg_checks [OF raw example_token_jws [OF tok]] example_time)
       (simp add: example_eval example_escalation_no_kid_def
          ErrorCode_KEY_BINDING_UNVERIFIED_def)
  have md: "py_get (obj []) ''max_delegation_depth'' (JInt 3) = Inr (JInt 3)"
    by (simp add: obj_def)
  have "verify_delegation_chain ?e None
      (JList ([example_dg ''dg-root''] @ example_dg ''dg-more-no-kid'' # []))
      ''jwks_issuer.json'' (obj []) =
     (Inr (False, ''E200'', obj [(''index'', JInt 1), (''reason'', JStr ''missing_kid'')]), None)"
    by (rule chain_returns [OF md, where k = 3 and ps = "[example_grant 200 [''view'', ''pay'']]"])
       (use step example_root_loop in \<open>simp_all add: example_time\<close>)
  with a b c d d' show ?thesis by simp
qed

subsection \<open>Key binding\<close>

lemma dg_key_binding_missing_kid:
  assumes "key_binding_of payload = Inr kb" "truthy kb" "py_get kb ''kid'' JNull = Inr kid"
    "\<not> truthy kid"
  shows "dg_key_binding e j i payload =
    Inr (Some (False, ''E200'', obj [(''index'', JInt (int i)), (''reason'', JStr ''missing_kid'')]))"
proof -
  from assms(1) obtain d where "py_get payload ''dg'' (JObj fmempty) = Inr d"
    "py_get d ''key_binding'' (JObj fmempty) = Inr kb"
    by (auto simp: key_binding_of_def ebind_eq_Inr)
  with assms(2-) show ?thesis
    by (simp add: dg_key_binding_def ErrorCode_KEY_BINDING_UNVERIFIED_def)
qed

lemma dg_key_binding_unknown_kid:
  assumes "key_binding_of payload = Inr kb" "truthy kb" "py_get kb ''kid'' JNull = Inr kid"
    "truthy kid" "key_exists_in_jwks e j kid = Inr False"
  shows "dg_key_binding e j i payload = Inr None"
proof -
  from assms(1) obtain d where d: "py_get payload ''dg'' (JObj fmempty) = Inr d"
    "py_get d ''key_binding'' (JObj fmempty) = Inr kb"
    by (auto simp: key_binding_of_def ebind_eq_Inr)
  then obtain m where "payload = JObj m" by (cases payload) auto
  with d assms(2-) show ?thesis
    by (simp add: dg_key_binding_def)
qed

text \<open>
  C8. Take an element whose verified payload has a non-empty key binding. If the
  binding has no \<^verbatim>\<open>kid\<close>, or an empty one, the key-binding check returns failure E200
  (KEY_BINDING_UNVERIFIED) with reason \<^verbatim>\<open>missing_kid\<close>; when the chain is within the
  depth bound, the elements before it pass, and its signature, time and status
  checks pass, the chain verifier returns that failure with the element's index. If
  the \<^verbatim>\<open>kid\<close> is non-empty and \<open>key_exists_in_jwks\<close> answers false, the check passes:
  an element whose other checks pass lets the loop go on.
\<close>

theorem key_binding_policy:
  assumes "key_binding_of payload = Inr kb" and "truthy kb"
    and "py_get kb ''kid'' JNull = Inr kid"
  shows
    "(\<not> truthy kid \<longrightarrow>
        dg_key_binding e j i payload =
          Inr (Some (False, ''E200'',
                 obj [(''index'', JInt (int i)), (''reason'', JStr ''missing_kid'')]))) \<and>
     (\<not> truthy kid \<and>
      py_get policy ''max_delegation_depth'' (JInt 3) = Inr md \<and> as_int md = Some k \<and>
      int (length (pre @ d # rest)) \<le> k \<and>
      dg_loop e j policy (time_dg e) 0 [] pre = Inr ps \<and>
      py_index d ''raw'' = Inr tok \<and> verify_jws e tok j = Inr (h, payload) \<and>
      dg_temporal (time_dg e) (length pre) payload = Inr None \<and>
      dg_status e policy (length pre) payload = Inr None \<longrightarrow>
        verify_delegation_chain e anchor (JList (pre @ d # rest)) j policy =
          (Inr (False, ''E200'',
             obj [(''index'', JInt (int (length pre))), (''reason'', JStr ''missing_kid'')]),
           anchor)) \<and>
     (truthy kid \<and> key_exists_in_jwks e j kid = Inr False \<longrightarrow>
        dg_key_binding e j i payload = Inr None) \<and>
     (truthy kid \<and> key_exists_in_jwks e j kid = Inr False \<and>
      py_index d ''raw'' = Inr tok \<and> verify_jws e tok j = Inr (h, payload) \<and>
      dg_temporal now i payload = Inr None \<and> dg_status e policy i payload = Inr None \<and>
      dg_scope i payload (parsed @ [payload]) = Inr None \<longrightarrow>
        verify_dg e j policy now i parsed d = Continue payload)"
proof (intro conjI impI)
  assume "\<not> truthy kid"
  then show "dg_key_binding e j i payload =
          Inr (Some (False, ''E200'',
                 obj [(''index'', JInt (int i)), (''reason'', JStr ''missing_kid'')]))"
    by (rule dg_key_binding_missing_kid [OF assms])
next
  assume r: "\<not> truthy kid \<and>
      py_get policy ''max_delegation_depth'' (JInt 3) = Inr md \<and> as_int md = Some k \<and>
      int (length (pre @ d # rest)) \<le> k \<and>
      dg_loop e j policy (time_dg e) 0 [] pre = Inr ps \<and>
      py_index d ''raw'' = Inr tok \<and> verify_jws e tok j = Inr (h, payload) \<and>
      dg_temporal (time_dg e) (length pre) payload = Inr None \<and>
      dg_status e policy (length pre) payload = Inr None"
  then have nk: "\<not> truthy kid" by blast
  have kbs: "dg_key_binding e j (length pre) payload =
      Inr (Some (False, ''E200'',
             obj [(''index'', JInt (int (length pre))), (''reason'', JStr ''missing_kid'')]))"
    by (rule dg_key_binding_missing_kid [OF assms nk])
  have "verify_dg e j policy (time_dg e) (length pre) ps d =
      Return (False, ''E200'',
             obj [(''index'', JInt (int (length pre))), (''reason'', JStr ''missing_kid'')])"
    using r kbs by (simp add: verify_dg_checks [of d tok e j h payload] dg_checks_def)
  with r show "verify_delegation_chain e anchor (JList (pre @ d # rest)) j policy =
          (Inr (False, ''E200'',
             obj [(''index'', JInt (int (length pre))), (''reason'', JStr ''missing_kid'')]),
           anchor)"
    by (intro chain_returns [where md = md and k = k and ps = ps]) simp_all
next
  assume "truthy kid \<and> key_exists_in_jwks e j kid = Inr False"
  then have "truthy kid" "key_exists_in_jwks e j kid = Inr False" by blast+
  then show "dg_key_binding e j i payload = Inr None"
    by (rule dg_key_binding_unknown_kid [OF assms])
next
  assume r: "truthy kid \<and> key_exists_in_jwks e j kid = Inr False \<and>
      py_index d ''raw'' = Inr tok \<and> verify_jws e tok j = Inr (h, payload) \<and>
      dg_temporal now i payload = Inr None \<and> dg_status e policy i payload = Inr None \<and>
      dg_scope i payload (parsed @ [payload]) = Inr None"
  then have "truthy kid" "key_exists_in_jwks e j kid = Inr False" by blast+
  then have "dg_key_binding e j i payload = Inr None"
    by (rule dg_key_binding_unknown_kid [OF assms])
  with r show "verify_dg e j policy now i parsed d = Continue payload"
    by (simp add: verify_dg_checks [of d tok e j h payload] dg_checks_def)
qed

theorem key_binding_policy_witness:
  "verify_delegation_chain (example_env example_bound_tokens 100) None
      (JList [example_dg ''dg-nokid'']) ''jwks_issuer.json'' (obj []) =
     (Inr (False, ''E200'', obj [(''index'', JInt 0), (''reason'', JStr ''missing_kid'')]), None) \<and>
   key_exists_in_jwks (example_env example_bound_tokens 100) ''jwks_issuer.json''
      (JStr ''agent-key-7'') = Inr False \<and>
   verify_dg (example_env example_bound_tokens 100) ''jwks_issuer.json'' (obj []) 100 0 []
      (example_dg ''dg-otherkid'') =
     Continue (example_bound_grant (obj [(''kid'', JStr ''agent-key-7'')]) 200 (obj []))"
proof -
  let ?e = "example_env example_bound_tokens 100"
  let ?j = "''jwks_issuer.json''"
  let ?nokid = "example_bound_grant (obj [(''alg'', JStr ''EdDSA'')]) 200 (obj [])"
  let ?other = "example_bound_grant (obj [(''kid'', JStr ''agent-key-7'')]) 200 (obj [])"
  let ?h = "obj [(''alg'', JStr ''EdDSA''), (''kid'', JStr ''issuer-key-1'')]"
  have md: "py_get (obj []) ''max_delegation_depth'' (JInt 3) = Inr (JInt 3)"
    by (simp add: obj_def)
  have v1: "verify_jws ?e (JStr ''dg-nokid'') ?j = Inr (?h, ?nokid)"
    and v2: "verify_jws ?e (JStr ''dg-otherkid'') ?j = Inr (?h, ?other)"
    by (rule example_verify_jws;
        simp add: example_bound_tokens_def example_bound_grant_def token_time_defs obj_def)+
  have r1: "py_index (example_dg ''dg-nokid'') ''raw'' = Inr (JStr ''dg-nokid'')"
    and r2: "py_index (example_dg ''dg-otherkid'') ''raw'' = Inr (JStr ''dg-otherkid'')"
    by (simp_all add: example_dg_def obj_def)
  have k1: "truthy (obj [(''alg'', JStr ''EdDSA'')])"
    "py_get (obj [(''alg'', JStr ''EdDSA'')]) ''kid'' JNull = Inr JNull"
    and k2: "truthy (obj [(''kid'', JStr ''agent-key-7'')])"
    "py_get (obj [(''kid'', JStr ''agent-key-7'')]) ''kid'' JNull = Inr (JStr ''agent-key-7'')"
    by (simp_all add: obj_def)
  have o1: "dg_temporal 100 0 ?nokid = Inr None" "dg_status ?e (obj []) 0 ?nokid = Inr None"
    and o2: "dg_temporal 100 0 ?other = Inr None" "dg_status ?e (obj []) 0 ?other = Inr None"
    "dg_scope 0 ?other ([] @ [?other]) = Inr None"
    by (simp_all add: example_bound_eval)
  have a: "verify_delegation_chain ?e None (JList ([] @ example_dg ''dg-nokid'' # [])) ?j (obj []) =
     (Inr (False, ''E200'',
        obj [(''index'', JInt (int (length ([] :: json list)))), (''reason'', JStr ''missing_kid'')]),
      None)"
    using key_binding_policy [OF example_key_binding_of k1, where e = ?e and j = ?j
        and policy = "obj []" and md = "JInt 3" and k = 3 and pre = "[]" and rest = "[]"
        and d = "example_dg ''dg-nokid''" and ps = "[]" and tok = "JStr ''dg-nokid''" and h = ?h
        and anchor = None]
      md r1 v1 o1
    by (simp add: example_time)
  have b: "verify_dg ?e ?j (obj []) 100 0 [] (example_dg ''dg-otherkid'') = Continue ?other"
    using key_binding_policy [OF example_key_binding_of k2, where e = ?e and j = ?j
        and policy = "obj []" and d = "example_dg ''dg-otherkid''" and tok = "JStr ''dg-otherkid''"
        and h = ?h and now = 100 and i = 0 and parsed = "[]"]
      example_unknown_kid [of example_bound_tokens 100] r2 v2 o2
    by simp
  from a b example_unknown_kid [of example_bound_tokens 100] show ?thesis by simp
qed

text \<open>
  An element whose key binding has no \<^verbatim>\<open>kid\<close> and whose status document is revoked
  fails with E300 (DG_REVOKED), not E200: the status check runs before the
  key-binding check.
\<close>

theorem key_binding_policy_counterexample:
  "key_binding_of
      (example_bound_grant (obj [(''alg'', JStr ''EdDSA'')]) 200
         (obj [(''url'', JStr ''https://status.example/revoked/1'')]))
     = Inr (obj [(''alg'', JStr ''EdDSA'')]) \<and>
   truthy (obj [(''alg'', JStr ''EdDSA'')]) \<and>
   py_get (obj [(''alg'', JStr ''EdDSA'')]) ''kid'' JNull = Inr JNull \<and>
   payload_of (example_env example_bound_tokens 100) ''jwks_issuer.json''
      (example_dg ''dg-nokid-revoked'') =
     Inr (example_bound_grant (obj [(''alg'', JStr ''EdDSA'')]) 200
            (obj [(''url'', JStr ''https://status.example/revoked/1'')])) \<and>
   verify_delegation_chain (example_env example_bound_tokens 100) None
      (JList [example_dg ''dg-nokid-revoked'']) ''jwks_issuer.json'' (obj []) =
     (Inr (False, ''E300'', obj [(''index'', JInt 0)]), None)"
proof -
  let ?e = "example_env example_bound_tokens 100"
  let ?j = "''jwks_issuer.json''"
  let ?p = "example_bound_grant (obj [(''alg'', JStr ''EdDSA'')]) 200
         (obj [(''url'', JStr ''https://status.example/revoked/1'')])"
  let ?h = "obj [(''alg'', JStr ''EdDSA''), (''kid'', JStr ''issuer-key-1'')]"
  have md: "py_get (obj []) ''max_delegation_depth'' (JInt 3) = Inr (JInt 3)"
    by (simp add: obj_def)
  have v: "verify_jws ?e (JStr ''dg-nokid-revoked'') ?j = Inr (?h, ?p)"
    by (rule example_verify_jws;
        simp add: example_bound_tokens_def example_bound_grant_def token_time_defs obj_def)
  have r: "py_index (example_dg ''dg-nokid-revoked'') ''raw'' = Inr (JStr ''dg-nokid-revoked'')"
    by (simp add: example_dg_def obj_def)
  have po: "payload_of ?e ?j (example_dg ''dg-nokid-revoked'') = Inr ?p"
    using r v by (simp add: payload_of_def)
  have rev: "ebind (fetch_status (status_store ?e) (JStr ''https://status.example/revoked/1''))
      (\<lambda>status_doc. is_revoked status_doc (JInt 0)) = Inr True"
    by (simp add: fetch_status_def is_revoked_def example_env_def obj_def sublist_code)
  have st: "dg_status ?e (obj []) 0 ?p = Inr (Some (False, ''E300'', obj [(''index'', JInt 0)]))"
    using rev by (simp add: dg_status_def example_bound_grant_def obj_def index_info_def
        ErrorCode_DG_REVOKED_def)
  have tm: "dg_temporal 100 0 ?p = Inr None"
    by (simp add: example_bound_eval)
  have step: "verify_dg ?e ?j (obj []) 100 0 [] (example_dg ''dg-nokid-revoked'') =
      Return (False, ''E300'', obj [(''index'', JInt 0)])"
    using st tm by (simp add: verify_dg_checks [OF r v] dg_checks_def)
  have "verify_delegation_chain ?e None (JList ([] @ example_dg ''dg-nokid-revoked'' # []))
      ?j (obj []) = (Inr (False, ''E300'', obj [(''index'', JInt 0)]), None)"
    by (rule chain_returns [OF md, where k = 3 and ps = "[]"])
       (use step in \<open>simp_all add: example_time\<close>)
  with po example_key_binding_of [of "obj [(''alg'', JStr ''EdDSA'')]" 200
      "obj [(''url'', JStr ''https://status.example/revoked/1'')]"]
  show ?thesis by (simp add: obj_def)
qed


subsection \<open>Structural stage of the orchestrator\<close>

lemma first_missing_dict:
  "first_missing fs (JObj c) = Inr (find (\<lambda>f. f |\<notin>| fmdom c) fs)"
  by (induction fs) auto

lemma vc_alg_False: "vc_alg pol h = Inr (Some r) \<Longrightarrow> \<not> fst r"
  by (auto simp: vc_alg_def ebind_eq_Inr split: if_splits)

lemma vc_temporal_False: "vc_temporal e pol p = Inr (Some r) \<Longrightarrow> \<not> fst r"
  by (auto simp: vc_temporal_def ebind_eq_Inr Let_def split: if_splits)

lemma vc_status_False: "vc_status e pol p = Inr (Some r) \<Longrightarrow> \<not> fst r"
  by (auto simp: vc_status_def ebind_eq_Inr split: if_splits sum.splits)

lemma verify_vc_jwt_success:
  assumes "verify_vc_jwt e vp ji pol = (True, code, info)"
  shows "\<exists>tok h p iss sub. py_index vp ''jwt'' = Inr tok \<and> verify_jws e tok ji = Inr (h, p) \<and>
     py_get p ''iss'' JNull = Inr iss \<and> py_get p ''sub'' JNull = Inr sub \<and>
     code = ''OK'' \<and> info = obj [(''iss'', iss), (''sub'', sub)]"
proof (cases "py_index vp ''jwt''")
  case (Inl x)
  with assms show ?thesis
    by (cases x) (auto simp: verify_vc_jwt_def split: if_splits)
next
  case tok: (Inr tok)
  show ?thesis
  proof (cases "verify_jws e tok ji")
    case (Inl x)
    with assms tok show ?thesis
      by (cases x) (auto simp: verify_vc_jwt_def split: if_splits)
  next
    case (Inr hp)
    obtain h p where hp: "hp = (h, p)" by (cases hp)
    let ?st = "and_then (vc_alg pol h) (and_then (vc_temporal e pol p) (vc_status e pol p))"
    show ?thesis
    proof (cases ?st)
      case (Inl x)
      with assms tok Inr hp show ?thesis
        by (cases x) (auto simp: verify_vc_jwt_def split: if_splits)
    next
      case st: (Inr r)
      show ?thesis
      proof (cases r)
        case (Some x)
        with st have "\<not> fst x"
          by (auto simp: and_then_eq_Some dest: vc_alg_False vc_temporal_False vc_status_False)
        with assms tok Inr hp st Some show ?thesis
          by (auto simp: verify_vc_jwt_def)
      next
        case None
        with assms tok Inr hp st show ?thesis
          by (cases "py_get p ''iss'' JNull"; cases "py_get p ''sub'' JNull")
             (auto simp: verify_vc_jwt_def ErrorCode_OK_def split: if_splits)
      qed
    qed
  qed
qed

lemma first_missing_Delta:
  "first_missing required_fields (JObj (fmupd ''Delta'' v c)) =
   first_missing required_fields (JObj c)"
  by (simp add: first_missing_dict required_fields_def)

lemma py_index_Delta:
  "py_index (JObj (fmupd ''Delta'' v c)) ''M'' = py_index (JObj c) ''M''"
  "py_index (JObj (fmupd ''Delta'' v c)) ''P'' = py_index (JObj c) ''P''"
  "py_index (JObj (fmupd ''Delta'' v c)) ''I_issuer'' = py_index (JObj c) ''I_issuer''"
  "py_index (JObj (fmupd ''Delta'' v c)) ''I_subject'' = py_index (JObj c) ''I_subject''"
  by simp_all

lemma cvc_credential_Delta:
  "cvc_credential e (JObj (fmupd ''Delta'' v c)) ji = cvc_credential e (JObj c) ji"
  unfolding cvc_credential_def py_index_Delta ..

lemma cvc_holder_binding_Delta:
  "cvc_holder_binding (JObj (fmupd ''Delta'' v c)) = cvc_holder_binding (JObj c)"
  unfolding cvc_holder_binding_def py_index_Delta ..

lemma build_vro_Delta:
  "build_vro (JObj (fmupd ''Delta'' v c)) vi di = build_vro (JObj c) vi di"
  unfolding build_vro_def py_index_Delta ..

lemma verify_cvc_vro_Delta:
  assumes "fmlookup c ''Delta'' = None"
  shows "verify_cvc_vro e anchor (JObj (fmupd ''Delta'' (JList []) c)) ji =
     verify_cvc_vro e anchor (JObj c) ji"
proof -
  have g: "py_get (JObj (fmupd ''Delta'' (JList []) c)) ''Delta'' (JList []) =
      py_get (JObj c) ''Delta'' (JList [])"
    using assms by simp
  show ?thesis
    unfolding verify_cvc_vro_def first_missing_Delta cvc_credential_Delta
      cvc_holder_binding_Delta build_vro_Delta py_index_Delta g ..
qed

lemma verify_cvc_missing:
  assumes "find (\<lambda>f. f |\<notin>| fmdom c) required_fields = Some g"
  shows "verify_cvc e anchor (JObj c) ji jv =
     ((False, ''100'', obj [(''msg'', JStr (''missing '' @ g))]), anchor)"
  using assms
  by (simp add: verify_cvc_def verify_cvc_vro_def first_missing_dict ErrorCode_STRUCT_def)

lemma empty_chain_result:
  "verify_delegation_chain e anchor (JList []) ji policy =
     (Inr (True, ''OK'', obj [(''depth'', JInt 0)]), anchor)"
  by (simp add: verify_delegation_chain_def ErrorCode_OK_def)

lemma cvc_no_chain_vro:
  assumes "find (\<lambda>f. f |\<notin>| fmdom c) required_fields = None"
    and "fmlookup c ''M'' = Some m"
    and "py_get m ''profile_hint'' (JStr ''VC-JWT'') = Inr (JStr ''VC-JWT'')"
    and "py_get m ''raw_vc_jwt'' (JStr []) = Inr raw" "truthy raw"
    and "fmlookup c ''P'' = Some pol"
    and "verify_vc_jwt e (obj [(''jwt'', raw)]) ji pol =
           (True, vcode, obj [(''iss'', iss), (''sub'', sub)])"
    and "py_get (JObj c) ''Delta'' (JList []) = Inr (JList [])"
    and "py_get pol ''holder_binding_required'' (JBool True) = Inr hb" "\<not> truthy hb"
    and "py_index m ''request_id'' = Inr rid" "py_index pol ''id'' = Inr pid"
  shows "verify_cvc_vro e anchor (JObj c) ji =
     (Inr (Inr \<lparr>vro_cvc_id = rid, vro_timestamp = DETERMINISTIC_TIMESTAMP, vro_policy_ref = pid,
        vro_issuer = iss, vro_subject = sub, vro_delegation_chain_depth = JInt 0,
        vro_decision = ''VERIFIED'', vro_assurance = ''AAL2'',
        vro_chain_fingerprint = JNull\<rparr>), anchor)"
proof -
  let ?vi = "obj [(''iss'', iss), (''sub'', sub)]"
  have fm: "first_missing required_fields (JObj c) = Inr None"
    using assms by (simp add: first_missing_dict)
  have cred: "cvc_credential e (JObj c) ji = Inr (Inr ?vi)"
    using assms by (simp add: cvc_credential_def py_eq_def)
  have pidx: "py_index (JObj c) ''P'' = Inr pol"
    using assms by simp
  have hb: "cvc_holder_binding (JObj c) = Inr None"
    using assms by (simp add: cvc_holder_binding_def)
  have bv: "build_vro (JObj c) ?vi (obj [(''depth'', JInt 0)]) =
      Inr \<lparr>vro_cvc_id = rid, vro_timestamp = DETERMINISTIC_TIMESTAMP, vro_policy_ref = pid,
        vro_issuer = iss, vro_subject = sub, vro_delegation_chain_depth = JInt 0,
        vro_decision = ''VERIFIED'', vro_assurance = ''AAL2'', vro_chain_fingerprint = JNull\<rparr>"
    using assms by (simp add: build_vro_def obj_def)
  show ?thesis
    unfolding verify_cvc_vro_def
    by (simp only: fm cred assms(8) pidx empty_chain_result hb bv sum.case option.case prod.case
        simp_thms if_False if_True)
qed

lemma verify_cvc_signed:
  assumes "verify_cvc_vro e anchor cvc ji = (Inr (Inr v), anchor')"
    and "jwt_encode_vro e v = Some token"
  shows "verify_cvc e anchor cvc ji jv =
     ((True, ''OK'', obj [(''vro_jwt'', JStr token)]), anchor')"
  using assms by (simp add: verify_cvc_def sign_vro_def ErrorCode_OK_def)

lemma example_vc_jwt:
  "verify_vc_jwt example_vc_env (obj [(''jwt'', JStr ''vc-1'')]) ''jwks_issuer.json'' example_policy =
     (True, ''OK'', obj [(''iss'', JStr ''did:bank''), (''sub'', JStr ''did:agent:7'')])"
proof -
  have v: "verify_jws example_vc_env (JStr ''vc-1'') ''jwks_issuer.json'' =
      Inr (obj [(''alg'', JStr ''EdDSA''), (''kid'', JStr ''issuer-key-1'')], example_credential)"
    unfolding example_vc_env_def
    by (rule example_verify_jws) (simp_all add: example_credential_def token_time_defs obj_def)
  have t: "time_vc example_vc_env = 100"
    by (simp add: example_vc_env_def example_env_def)
  show ?thesis
    by (simp add: verify_vc_jwt_def v vc_alg_def vc_temporal_def vc_status_def t obj_def example_policy_def
          example_credential_def py_eq_def py_sub_def py_add_def py_lt_def ErrorCode_OK_def)
qed

lemma example_fields_present:
  "find (\<lambda>f. f |\<notin>| fmdom (fmap_of_list example_cvc_fields)) required_fields = None"
  by (simp add: example_cvc_fields_def required_fields_def)

lemma example_cvc_vro:
  "verify_cvc_vro example_vc_env None (JObj (fmap_of_list example_cvc_fields)) ''jwks_issuer.json'' =
     (Inr (Inr example_vro), None)"
  unfolding example_vro_def
  by (rule cvc_no_chain_vro [where m = example_metadata and raw = "JStr ''vc-1''"
        and pol = example_policy and hb = "JBool False" and vcode = "''OK''"];
      (rule example_fields_present | rule example_vc_jwt |
       simp add: example_cvc_fields_def example_metadata_def example_policy_def obj_def))

lemma example_cvc_result:
  "verify_cvc example_vc_env None (JObj (fmap_of_list example_cvc_fields)) ''jwks_issuer.json''
      ''jwks_verifier.json'' = ((True, ''OK'', obj [(''vro_jwt'', JStr ''signed-vro'')]), None)"
  by (rule verify_cvc_signed [OF example_cvc_vro])
     (simp add: example_vc_env_def example_env_def)

text \<open>
  C4. If one of the seven fields \<^verbatim>\<open>I_issuer\<close>, \<^verbatim>\<open>I_subject\<close>, \<^verbatim>\<open>C\<close>, \<^verbatim>\<open>pi\<close>, \<^verbatim>\<open>P\<close>, \<^verbatim>\<open>S\<close>,
  \<^verbatim>\<open>M\<close> is absent from the CVC, \<open>verify_cvc\<close> fails with code 100 and names the first
  absent one, whatever the world holds and with the ledger untouched: no other stage
  runs. \<^verbatim>\<open>Delta\<close> is not among the required fields: a CVC without it is verified
  exactly as the same CVC with an empty chain.
\<close>

theorem structural_stage:
  "(f \<in> set required_fields \<and> f |\<notin>| fmdom c \<longrightarrow>
      (\<exists>g. find (\<lambda>f. f |\<notin>| fmdom c) required_fields = Some g \<and>
         verify_cvc e anchor (JObj c) ji jv =
           ((False, ''100'', obj [(''msg'', JStr (''missing '' @ g))]), anchor))) \<and>
   (fmlookup c ''Delta'' = None \<longrightarrow>
      verify_cvc e anchor (JObj c) ji jv =
        verify_cvc e anchor (JObj (fmupd ''Delta'' (JList []) c)) ji jv)"
proof (intro conjI impI)
  assume "f \<in> set required_fields \<and> f |\<notin>| fmdom c"
  then have "find (\<lambda>f. f |\<notin>| fmdom c) required_fields \<noteq> None"
    by (auto simp: find_None_iff)
  then obtain g where "find (\<lambda>f. f |\<notin>| fmdom c) required_fields = Some g" by auto
  with verify_cvc_missing [OF this]
  show "\<exists>g. find (\<lambda>f. f |\<notin>| fmdom c) required_fields = Some g \<and>
         verify_cvc e anchor (JObj c) ji jv =
           ((False, ''100'', obj [(''msg'', JStr (''missing '' @ g))]), anchor)"
    by blast
next
  assume "fmlookup c ''Delta'' = None"
  then show "verify_cvc e anchor (JObj c) ji jv =
        verify_cvc e anchor (JObj (fmupd ''Delta'' (JList []) c)) ji jv"
    by (simp add: verify_cvc_def verify_cvc_vro_Delta)
qed

theorem structural_stage_witness:
  "verify_cvc example_vc_env None
      (JObj (fmap_of_list (filter (\<lambda>kv. fst kv \<noteq> ''pi'') example_cvc_fields)))
      ''jwks_issuer.json'' ''jwks_verifier.json'' =
     ((False, ''100'', obj [(''msg'', JStr ''missing pi'')]), None) \<and>
   verify_cvc example_vc_env None
      (JObj (fmupd ''Delta'' (JList []) (fmap_of_list example_cvc_fields)))
      ''jwks_issuer.json'' ''jwks_verifier.json'' =
     ((True, ''OK'', obj [(''vro_jwt'', JStr ''signed-vro'')]), None)"
proof -
  let ?c = "fmap_of_list (filter (\<lambda>kv. fst kv \<noteq> ''pi'') example_cvc_fields)"
  have miss: "''pi'' \<in> set required_fields \<and> ''pi'' |\<notin>| fmdom ?c"
    by (simp add: required_fields_def example_cvc_fields_def)
  have fnd: "find (\<lambda>f. f |\<notin>| fmdom ?c) required_fields = Some ''pi''"
    by (simp add: required_fields_def example_cvc_fields_def)
  from structural_stage [where c = ?c and f = "''pi''" and e = example_vc_env and anchor = None
      and ji = "''jwks_issuer.json''" and jv = "''jwks_verifier.json''",
      THEN conjunct1, rule_format, OF miss] fnd
  have a: "verify_cvc example_vc_env None (JObj ?c) ''jwks_issuer.json'' ''jwks_verifier.json'' =
     ((False, ''100'', obj [(''msg'', JStr ''missing pi'')]), None)"
    by auto
  have nd: "fmlookup (fmap_of_list example_cvc_fields) ''Delta'' = None"
    by (simp add: example_cvc_fields_def)
  from structural_stage [where c = "fmap_of_list example_cvc_fields" and e = example_vc_env
      and anchor = None and ji = "''jwks_issuer.json''" and jv = "''jwks_verifier.json''",
      THEN conjunct2, rule_format, OF nd] example_cvc_result
  have b: "verify_cvc example_vc_env None
      (JObj (fmupd ''Delta'' (JList []) (fmap_of_list example_cvc_fields)))
      ''jwks_issuer.json'' ''jwks_verifier.json'' =
     ((True, ''OK'', obj [(''vro_jwt'', JStr ''signed-vro'')]), None)"
    by simp
  from a b show ?thesis by simp
qed

text \<open>
  A CVC with the seven required fields and no \<^verbatim>\<open>Delta\<close> is accepted: the result is
  success, not a structural error.
\<close>

theorem structural_stage_counterexample:
  "py_in_str ''Delta'' (JObj (fmap_of_list example_cvc_fields)) = Inr False \<and>
   verify_cvc example_vc_env None (JObj (fmap_of_list example_cvc_fields)) ''jwks_issuer.json''
      ''jwks_verifier.json'' = ((True, ''OK'', obj [(''vro_jwt'', JStr ''signed-vro'')]), None)"
  using example_cvc_result by (simp add: example_cvc_fields_def)


subsection \<open>Empty chain\<close>

text \<open>
  C9. The empty chain verifies with success, code OK and information
  \<^verbatim>\<open>{"depth": 0}\<close>, which has no chain fingerprint; the world is not consulted and the
  ledger is left as it was. For a CVC with all required fields, profile VC-JWT, a
  token on which \<open>verify_vc_jwt\<close> succeeds, an empty chain, a policy whose
  \<^verbatim>\<open>holder_binding_required\<close> is false, a request id and a policy id, the VRO is built
  with depth 0, fingerprint \<^verbatim>\<open>None\<close> and the fixed timestamp, and once the signer
  returns a token \<open>verify_cvc\<close> succeeds with it.
\<close>

theorem empty_chain:
  "verify_delegation_chain e anchor (JList []) ji policy =
     (Inr (True, ''OK'', obj [(''depth'', JInt 0)]), anchor) \<and>
   py_get (obj [(''depth'', JInt 0)]) ''chain_fingerprint'' JNull = Inr JNull \<and>
   (find (\<lambda>f. f |\<notin>| fmdom c) required_fields = None \<and>
    fmlookup c ''M'' = Some m \<and>
    py_get m ''profile_hint'' (JStr ''VC-JWT'') = Inr (JStr ''VC-JWT'') \<and>
    py_get m ''raw_vc_jwt'' (JStr []) = Inr raw \<and> truthy raw \<and>
    fmlookup c ''P'' = Some pol \<and>
    verify_vc_jwt e (obj [(''jwt'', raw)]) ji pol = (True, vcode, vc_info) \<and>
    py_get (JObj c) ''Delta'' (JList []) = Inr (JList []) \<and>
    py_get pol ''holder_binding_required'' (JBool True) = Inr hb \<and> \<not> truthy hb \<and>
    py_index m ''request_id'' = Inr rid \<and> py_index pol ''id'' = Inr pid \<longrightarrow>
    (\<exists>v. verify_cvc_vro e anchor (JObj c) ji = (Inr (Inr v), anchor) \<and>
         vro_delegation_chain_depth v = JInt 0 \<and> vro_chain_fingerprint v = JNull \<and>
         vro_timestamp v = DETERMINISTIC_TIMESTAMP \<and>
         vro_cvc_id v = rid \<and> vro_policy_ref v = pid \<and>
         (\<forall>token. jwt_encode_vro e v = Some token \<longrightarrow>
            verify_cvc e anchor (JObj c) ji jv =
              ((True, ''OK'', obj [(''vro_jwt'', JStr token)]), anchor))))"
proof (intro conjI impI)
  show "verify_delegation_chain e anchor (JList []) ji policy =
     (Inr (True, ''OK'', obj [(''depth'', JInt 0)]), anchor)"
    by (rule empty_chain_result)
  show "py_get (obj [(''depth'', JInt 0)]) ''chain_fingerprint'' JNull = Inr JNull"
    by (simp add: obj_def)
next
  assume r: "find (\<lambda>f. f |\<notin>| fmdom c) required_fields = None \<and>
    fmlookup c ''M'' = Some m \<and>
    py_get m ''profile_hint'' (JStr ''VC-JWT'') = Inr (JStr ''VC-JWT'') \<and>
    py_get m ''raw_vc_jwt'' (JStr []) = Inr raw \<and> truthy raw \<and>
    fmlookup c ''P'' = Some pol \<and>
    verify_vc_jwt e (obj [(''jwt'', raw)]) ji pol = (True, vcode, vc_info) \<and>
    py_get (JObj c) ''Delta'' (JList []) = Inr (JList []) \<and>
    py_get pol ''holder_binding_required'' (JBool True) = Inr hb \<and> \<not> truthy hb \<and>
    py_index m ''request_id'' = Inr rid \<and> py_index pol ''id'' = Inr pid"
  then obtain iss sub where vi: "vc_info = obj [(''iss'', iss), (''sub'', sub)]"
    using verify_vc_jwt_success [of e "obj [(''jwt'', raw)]" ji pol vcode vc_info] by blast
  let ?v = "\<lparr>vro_cvc_id = rid, vro_timestamp = DETERMINISTIC_TIMESTAMP, vro_policy_ref = pid,
      vro_issuer = iss, vro_subject = sub, vro_delegation_chain_depth = JInt 0,
      vro_decision = ''VERIFIED'', vro_assurance = ''AAL2'', vro_chain_fingerprint = JNull\<rparr>"
  have pre: "verify_cvc_vro e anchor (JObj c) ji = (Inr (Inr ?v), anchor)"
    using r vi by (intro cvc_no_chain_vro [where m = m and raw = raw and pol = pol and hb = hb
          and vcode = vcode]) simp_all
  have "\<forall>token. jwt_encode_vro e ?v = Some token \<longrightarrow>
            verify_cvc e anchor (JObj c) ji jv =
              ((True, ''OK'', obj [(''vro_jwt'', JStr token)]), anchor)"
    using verify_cvc_signed [OF pre] by blast
  with pre show "\<exists>v. verify_cvc_vro e anchor (JObj c) ji = (Inr (Inr v), anchor) \<and>
         vro_delegation_chain_depth v = JInt 0 \<and> vro_chain_fingerprint v = JNull \<and>
         vro_timestamp v = DETERMINISTIC_TIMESTAMP \<and>
         vro_cvc_id v = rid \<and> vro_policy_ref v = pid \<and>
         (\<forall>token. jwt_encode_vro e v = Some token \<longrightarrow>
            verify_cvc e anchor (JObj c) ji jv =
              ((True, ''OK'', obj [(''vro_jwt'', JStr token)]), anchor))"
    by (intro exI [of _ ?v]) simp
qed

theorem empty_chain_witness:
  "\<exists>v. verify_cvc_vro example_vc_env None (obj example_cvc_fields) ''jwks_issuer.json'' =
       (Inr (Inr v), None) \<and>
     vro_delegation_chain_depth v = JInt 0 \<and> vro_chain_fingerprint v = JNull \<and>
     verify_cvc example_vc_env None (obj example_cvc_fields) ''jwks_issuer.json''
        ''jwks_verifier.json'' = ((True, ''OK'', obj [(''vro_jwt'', JStr ''signed-vro'')]), None)"
proof -
  have sign: "jwt_encode_vro example_vc_env v = Some ''signed-vro''" for v
    by (simp add: example_vc_env_def example_env_def)
  have h: "find (\<lambda>f. f |\<notin>| fmdom (fmap_of_list example_cvc_fields)) required_fields = None \<and>
    fmlookup (fmap_of_list example_cvc_fields) ''M'' = Some example_metadata \<and>
    py_get example_metadata ''profile_hint'' (JStr ''VC-JWT'') = Inr (JStr ''VC-JWT'') \<and>
    py_get example_metadata ''raw_vc_jwt'' (JStr []) = Inr (JStr ''vc-1'') \<and> truthy (JStr ''vc-1'') \<and>
    fmlookup (fmap_of_list example_cvc_fields) ''P'' = Some example_policy \<and>
    verify_vc_jwt example_vc_env (obj [(''jwt'', JStr ''vc-1'')]) ''jwks_issuer.json'' example_policy =
      (True, ''OK'', obj [(''iss'', JStr ''did:bank''), (''sub'', JStr ''did:agent:7'')]) \<and>
    py_get (JObj (fmap_of_list example_cvc_fields)) ''Delta'' (JList []) = Inr (JList []) \<and>
    py_get example_policy ''holder_binding_required'' (JBool True) = Inr (JBool False) \<and>
    \<not> truthy (JBool False) \<and>
    py_index example_metadata ''request_id'' = Inr (JStr ''1735600000123'') \<and>
    py_index example_policy ''id'' = Inr (JStr ''P-001'')"
    by (intro conjI example_fields_present example_vc_jwt)
       (simp_all add: example_cvc_fields_def example_metadata_def example_policy_def obj_def)
  from empty_chain [where c = "fmap_of_list example_cvc_fields" and e = example_vc_env
      and anchor = None and ji = "''jwks_issuer.json''" and jv = "''jwks_verifier.json''",
      THEN conjunct2, THEN conjunct2, rule_format, OF h]
  show ?thesis
    by (auto simp: obj_def sign)
qed

subsection \<open>Determinism of the verdict\<close>

lemma same_verify_jws:
  assumes "same_inputs e1 e2"
  shows "verify_jws e1 tok j = verify_jws e2 tok j"
proof -
  from assms have eq: "jwt_get_unverified_header e1 = jwt_get_unverified_header e2"
    "jwt_decode e1 = jwt_decode e2" "jwk_x_to_pem e1 = jwk_x_to_pem e2"
    "read_json_file e1 = read_json_file e2"
    by (simp_all add: same_inputs_def)
  have pem: "jwk_to_pem e1 k = jwk_to_pem e2 k" for k
    unfolding jwk_to_pem_def eq ..
  have key: "jwks_get_key e1 p k = jwks_get_key e2 p k" for p k
    unfolding jwks_get_key_def eq pem ..
  show ?thesis
    unfolding verify_jws_def eq key ..
qed

lemma same_payload_of:
  "same_inputs e1 e2 \<Longrightarrow> payload_of e1 j d = payload_of e2 j d"
  by (simp add: payload_of_def same_verify_jws [of e1 e2])

lemma same_fingerprint:
  "same_inputs e1 e2 \<Longrightarrow> chain_fingerprint_of e1 ps = chain_fingerprint_of e2 ps"
  by (simp add: chain_fingerprint_of_def same_inputs_def)

lemma dg_loop_same:
  assumes "dg_loop e1 j pol1 n1 0 [] dgs = Inr p1" "dg_loop e2 j pol2 n2 0 [] dgs = Inr p2"
    and "same_inputs e1 e2"
  shows "p1 = p2"
proof (rule nth_equalityI)
  from dg_loop_payloads [OF assms(1)] have l1: "length p1 = length dgs"
    and i1: "\<forall>n<length dgs. payload_of e1 j (dgs ! n) = Inr (p1 ! n)" by auto
  from dg_loop_payloads [OF assms(2)] have l2: "length p2 = length dgs"
    and i2: "\<forall>n<length dgs. payload_of e2 j (dgs ! n) = Inr (p2 ! n)" by auto
  show "length p1 = length p2" using l1 l2 by simp
  fix n assume "n < length p1"
  with l1 i1 i2 same_payload_of [OF assms(3)] show "p1 ! n = p2 ! n"
    by (metis sum.inject(2))
qed

lemma anchor_stage_False: "anchor_stage e a pol n fp = (Inr (Some r), a') \<Longrightarrow> \<not> fst r"
  by (auto simp: anchor_stage_def split: sum.splits if_splits option.splits prod.splits)

lemma chain_success_empty:
  assumes "verify_delegation_chain e a delta j pol = (Inr (True, code, info), a')"
    and "\<not> truthy delta"
  shows "info = obj [(''depth'', JInt 0)]"
  using assms by (simp add: verify_delegation_chain_def)

lemma chain_success_info:
  assumes "verify_delegation_chain e a delta j pol = (Inr (True, code, info), a')"
    and "truthy delta"
  shows "\<exists>dgs parsed. py_iter delta = Inr dgs \<and>
        dg_loop e j pol (time_dg e) 0 [] dgs = Inr parsed \<and>
        info = obj [(''depth'', JInt (int (length parsed))),
                    (''chain_fingerprint'', JStr (chain_fingerprint_of e parsed))]"
proof -
  from assms obtain dgs where it: "py_iter delta = Inr dgs"
    by (auto simp: verify_delegation_chain_def split: sum.splits if_splits)
  show ?thesis
  proof (cases "dg_loop e j pol (time_dg e) 0 [] dgs")
    case (Inl r)
    from dg_loop_False [OF Inl] have "\<not> fst r" .
    with assms it Inl show ?thesis
      by (auto simp: verify_delegation_chain_def split: sum.splits if_splits)
  next
    case (Inr parsed)
    with assms it show ?thesis
      by (auto simp: verify_delegation_chain_def Let_def
          split: sum.splits if_splits option.splits prod.splits dest: anchor_stage_False)
  qed
qed

lemma cvc_credential_False: "cvc_credential e cvc ji = Inr (Inl r) \<Longrightarrow> \<not> fst r"
  by (auto simp: cvc_credential_def ebind_eq_Inr case_prod_beta split: if_splits)

lemma cvc_holder_binding_False: "cvc_holder_binding cvc = Inr (Some r) \<Longrightarrow> \<not> fst r"
  by (auto simp: cvc_holder_binding_def ebind_eq_Inr split: if_splits)

lemma cvc_credential_same:
  assumes "cvc_credential e1 cvc ji = Inr (Inr i1)" "cvc_credential e2 cvc ji = Inr (Inr i2)"
    and "same_inputs e1 e2"
  shows "i1 = i2"
proof -
  from assms(1) obtain m profile where m: "py_index cvc ''M'' = Inr m"
    "py_get m ''profile_hint'' (JStr ''VC-JWT'') = Inr profile"
    by (auto simp: cvc_credential_def ebind_eq_Inr)
  show ?thesis
  proof (cases "py_eq profile (JStr ''VC-JWT'')")
    case True
    from assms(1) m True obtain raw pol where
      r: "py_get m ''raw_vc_jwt'' (JStr []) = Inr raw" "py_index cvc ''P'' = Inr pol"
      and f1: "fst (verify_vc_jwt e1 (obj [(''jwt'', raw)]) ji pol)"
        "snd (snd (verify_vc_jwt e1 (obj [(''jwt'', raw)]) ji pol)) = i1"
      by (auto simp: cvc_credential_def ebind_eq_Inr case_prod_beta split: if_splits)
    from assms(2) m True r have
      f2: "fst (verify_vc_jwt e2 (obj [(''jwt'', raw)]) ji pol)"
        "snd (snd (verify_vc_jwt e2 (obj [(''jwt'', raw)]) ji pol)) = i2"
      by (auto simp: cvc_credential_def ebind_eq_Inr case_prod_beta split: if_splits)
    from f1 obtain c1 where
      v1: "verify_vc_jwt e1 (obj [(''jwt'', raw)]) ji pol = (True, c1, i1)"
      by (cases "verify_vc_jwt e1 (obj [(''jwt'', raw)]) ji pol") auto
    from f2 obtain c2 where
      v2: "verify_vc_jwt e2 (obj [(''jwt'', raw)]) ji pol = (True, c2, i2)"
      by (cases "verify_vc_jwt e2 (obj [(''jwt'', raw)]) ji pol") auto
    from verify_vc_jwt_success [OF v1] verify_vc_jwt_success [OF v2]
      same_verify_jws [OF assms(3)]
    show ?thesis by (metis Pair_inject sum.inject(2))
  next
    case False
    with assms(1,2) m show ?thesis
      by (auto simp: cvc_credential_def ebind_eq_Inr split: if_splits)
  qed
qed

lemma verify_cvc_vro_stages:
  assumes "verify_cvc_vro e a cvc ji = (Inr (Inr v), a')"
  shows "\<exists>vc_info delta pol code dg_info.
     cvc_credential e cvc ji = Inr (Inr vc_info) \<and>
     py_get cvc ''Delta'' (JList []) = Inr delta \<and> py_index cvc ''P'' = Inr pol \<and>
     verify_delegation_chain e a delta ji pol = (Inr (True, code, dg_info), a') \<and>
     build_vro cvc vc_info dg_info = Inr v"
  using assms
  by (auto simp: verify_cvc_vro_def split: sum.splits option.splits if_splits prod.splits)

lemma verify_cvc_vro_False: "verify_cvc_vro e a cvc ji = (Inr (Inl r), a') \<Longrightarrow> \<not> fst r"
  by (auto simp: verify_cvc_vro_def split: sum.splits option.splits if_splits prod.splits
      dest: cvc_credential_False cvc_holder_binding_False)

lemma verify_cvc_success:
  assumes "verify_cvc e a cvc ji jv = ((True, code, res), a')"
  shows "\<exists>v token. verify_cvc_vro e a cvc ji = (Inr (Inr v), a') \<and>
     jwt_encode_vro e v = Some token \<and> code = ''OK'' \<and> res = obj [(''vro_jwt'', JStr token)]"
  using assms
  by (auto simp: verify_cvc_def sign_vro_def ErrorCode_OK_def
      split: sum.splits option.splits prod.splits dest: verify_cvc_vro_False)

lemma build_vro_timestamp:
  "build_vro cvc vi di = Inr v \<Longrightarrow> vro_timestamp v = DETERMINISTIC_TIMESTAMP"
  by (auto simp: build_vro_def ebind_eq_Inr)

lemma chain_info_same:
  assumes "verify_delegation_chain e1 a1 delta j pol = (Inr (True, c1, i1), a1')"
    and "verify_delegation_chain e2 a2 delta j pol = (Inr (True, c2, i2), a2')"
    and "same_inputs e1 e2"
  shows "i1 = i2"
proof (cases "truthy delta")
  case False
  with chain_success_empty [OF assms(1)] chain_success_empty [OF assms(2)] show ?thesis
    by simp
next
  case True
  with chain_success_info [OF assms(1)] obtain dgs p1 where
    1: "py_iter delta = Inr dgs" "dg_loop e1 j pol (time_dg e1) 0 [] dgs = Inr p1"
    "i1 = obj [(''depth'', JInt (int (length p1))),
               (''chain_fingerprint'', JStr (chain_fingerprint_of e1 p1))]"
    by auto
  from chain_success_info [OF assms(2) True] 1(1) obtain p2 where
    2: "dg_loop e2 j pol (time_dg e2) 0 [] dgs = Inr p2"
    "i2 = obj [(''depth'', JInt (int (length p2))),
               (''chain_fingerprint'', JStr (chain_fingerprint_of e2 p2))]"
    by auto
  from dg_loop_same [OF 1(2) 2(1) assms(3)] have "p1 = p2" .
  with 1(3) 2(2) same_fingerprint [OF assms(3)] show ?thesis by simp
qed

lemma example_vc_decoder_same: "jwt_decode example_vc_env = jwt_decode example_vc_env_later"
  by (intro ext)
     (simp add: example_vc_env_def example_vc_env_later_def example_env_def
        example_credential_def token_immature_def token_expired_def obj_def split: json.splits)

lemma example_vc_jwt_later:
  "verify_vc_jwt example_vc_env_later (obj [(''jwt'', JStr ''vc-1'')]) ''jwks_issuer.json''
      example_policy =
     (True, ''OK'', obj [(''iss'', JStr ''did:bank''), (''sub'', JStr ''did:agent:7'')])"
proof -
  have v: "verify_jws example_vc_env_later (JStr ''vc-1'') ''jwks_issuer.json'' =
      Inr (obj [(''alg'', JStr ''EdDSA''), (''kid'', JStr ''issuer-key-1'')], example_credential)"
    unfolding example_vc_env_later_def
    by (rule example_verify_jws) (simp_all add: example_credential_def token_time_defs obj_def)
  have t: "time_vc example_vc_env_later = 150"
    by (simp add: example_vc_env_later_def example_env_def)
  show ?thesis
    by (simp add: verify_vc_jwt_def v vc_alg_def vc_temporal_def vc_status_def t obj_def
          example_policy_def example_credential_def py_eq_def py_sub_def py_add_def py_lt_def
          ErrorCode_OK_def)
qed

lemma example_cvc_result_later:
  "verify_cvc example_vc_env_later (Some empty_ledger) (JObj (fmap_of_list example_cvc_fields))
      ''jwks_issuer.json'' ''jwks_verifier.json'' =
     ((True, ''OK'', obj [(''vro_jwt'', JStr ''signed-vro'')]), Some empty_ledger)"
proof -
  have "verify_cvc_vro example_vc_env_later (Some empty_ledger)
      (JObj (fmap_of_list example_cvc_fields)) ''jwks_issuer.json'' =
     (Inr (Inr example_vro), Some empty_ledger)"
    unfolding example_vro_def
    by (rule cvc_no_chain_vro [where m = example_metadata and raw = "JStr ''vc-1''"
          and pol = example_policy and hb = "JBool False" and vcode = "''OK''"];
        (rule example_fields_present | rule example_vc_jwt_later |
         simp add: example_cvc_fields_def example_metadata_def example_policy_def obj_def))
  then show ?thesis
    by (rule verify_cvc_signed) (simp add: example_vc_env_later_def example_env_def)
qed

text \<open>
  C5. Take two successful runs of \<open>verify_cvc\<close> on the same CVC, in worlds that give
  the same inputs but may read different clocks and start from different ledgers.
  Both build the same VRO, field for field, and in particular the same chain
  fingerprint; its timestamp is the constant 1735600000; each run returns the token its
  signer makes of that VRO.
\<close>

theorem vro_deterministic:
  assumes "same_inputs e1 e2"
    and "verify_cvc e1 a1 cvc ji jv = ((True, c1, r1), a1')"
    and "verify_cvc e2 a2 cvc ji jv = ((True, c2, r2), a2')"
  shows "\<exists>v t1 t2.
      verify_cvc_vro e1 a1 cvc ji = (Inr (Inr v), a1') \<and>
      verify_cvc_vro e2 a2 cvc ji = (Inr (Inr v), a2') \<and>
      vro_timestamp v = 1735600000 \<and>
      jwt_encode_vro e1 v = Some t1 \<and> r1 = obj [(''vro_jwt'', JStr t1)] \<and>
      jwt_encode_vro e2 v = Some t2 \<and> r2 = obj [(''vro_jwt'', JStr t2)]"
proof -
  from verify_cvc_success [OF assms(2)] obtain v1 t1 where
    1: "verify_cvc_vro e1 a1 cvc ji = (Inr (Inr v1), a1')" "jwt_encode_vro e1 v1 = Some t1"
    "r1 = obj [(''vro_jwt'', JStr t1)]" by blast
  from verify_cvc_success [OF assms(3)] obtain v2 t2 where
    2: "verify_cvc_vro e2 a2 cvc ji = (Inr (Inr v2), a2')" "jwt_encode_vro e2 v2 = Some t2"
    "r2 = obj [(''vro_jwt'', JStr t2)]" by blast
  from verify_cvc_vro_stages [OF 1(1)] obtain vi1 delta pol k1 di1 where
    s1: "cvc_credential e1 cvc ji = Inr (Inr vi1)"
    "py_get cvc ''Delta'' (JList []) = Inr delta" "py_index cvc ''P'' = Inr pol"
    "verify_delegation_chain e1 a1 delta ji pol = (Inr (True, k1, di1), a1')"
    "build_vro cvc vi1 di1 = Inr v1" by blast
  from verify_cvc_vro_stages [OF 2(1)] s1(2,3) obtain vi2 k2 di2 where
    s2: "cvc_credential e2 cvc ji = Inr (Inr vi2)"
    "verify_delegation_chain e2 a2 delta ji pol = (Inr (True, k2, di2), a2')"
    "build_vro cvc vi2 di2 = Inr v2" by auto
  have "vi1 = vi2" by (rule cvc_credential_same [OF s1(1) s2(1) assms(1)])
  moreover have "di1 = di2" by (rule chain_info_same [OF s1(4) s2(2) assms(1)])
  ultimately have "v1 = v2" using s1(5) s2(3) by simp
  moreover have "vro_timestamp v1 = 1735600000"
    using build_vro_timestamp [OF s1(5)] by (simp add: DETERMINISTIC_TIMESTAMP_def)
  ultimately show ?thesis using 1 2 by blast
qed

theorem vro_deterministic_witness:
  "\<exists>v. verify_cvc_vro example_vc_env None (JObj (fmap_of_list example_cvc_fields))
          ''jwks_issuer.json'' = (Inr (Inr v), None) \<and>
       verify_cvc_vro example_vc_env_later (Some empty_ledger)
          (JObj (fmap_of_list example_cvc_fields)) ''jwks_issuer.json'' =
         (Inr (Inr v), Some empty_ledger) \<and>
       vro_timestamp v = 1735600000 \<and>
       time_vc example_vc_env \<noteq> time_vc example_vc_env_later"
proof -
  have same: "same_inputs example_vc_env example_vc_env_later"
    by (simp add: same_inputs_def example_vc_decoder_same)
       (simp add: example_vc_env_def example_vc_env_later_def example_env_def)
  have "time_vc example_vc_env \<noteq> time_vc example_vc_env_later"
    by (simp add: example_vc_env_def example_vc_env_later_def example_env_def)
  with vro_deterministic [OF same example_cvc_result example_cvc_result_later]
  show ?thesis by blast
qed


subsection \<open>Temporal validity of delegations\<close>

text \<open>
  C7. The temporal check of \<open>verify_delegation_chain\<close> is never reached by an expired
  element. The check itself, \<^verbatim>\<open>now < nbf or now > exp\<close> on the verified payload, answers
  E300 (DG_TIME) for a payload with \<^verbatim>\<open>nbf\<close> 0 and \<^verbatim>\<open>exp\<close> 50 at time 100. But the payload is
  obtained from \<open>verify_jws\<close>, whose \<^verbatim>\<open>jwt.decode\<close> call keeps the default options and so
  refuses the expired token; the refusal is raised as a \<^verbatim>\<open>CryptoError\<close>, and the chain
  verifier turns it into the structural failure 100 for that index. The chain of depth
  1 whose single element expired at 50 therefore fails at time 100 with code 100 and the
  decoder's message, not with E300.
\<close>

theorem expired_delegation_fails_structural:
  "dg_temporal 100 0 (obj [(''nbf'', JInt 0), (''exp'', JInt 50)]) =
     Inr (Some (False, ''E300'', obj [(''index'', JInt 0)])) \<and>
   verify_jws (example_env [(''dg0'', obj [(''nbf'', JInt 0), (''exp'', JInt 50)])] 100)
      (JStr ''dg0'') ''jwks_issuer.json'' =
     Inl (CryptoError, ''JWT verification failed: Signature has expired'') \<and>
   verify_delegation_chain (example_env [(''dg0'', obj [(''nbf'', JInt 0), (''exp'', JInt 50)])] 100) None
      (JList [obj [(''raw'', JStr ''dg0'')]]) ''jwks_issuer.json'' (obj []) =
     (Inr (False, ''100'',
        obj [(''index'', JInt 0), (''error'', JStr ''JWT verification failed: Signature has expired'')]),
      None)"
proof -
  let ?p = "obj [(''nbf'', JInt 0), (''exp'', JInt 50)]"
  let ?e = "example_env [(''dg0'', ?p)] 100"
  let ?d = "obj [(''raw'', JStr ''dg0'')]"
  have a: "dg_temporal 100 0 ?p = Inr (Some (False, ''E300'', obj [(''index'', JInt 0)]))"
    by (simp add: dg_temporal_def py_lt_def ErrorCode_DG_TIME_def index_info_def obj_def)
  have v: "verify_jws ?e (JStr ''dg0'') ''jwks_issuer.json'' =
     Inl (CryptoError, ''JWT verification failed: Signature has expired'')"
    by (rule example_expired_jws [where p = ?p])
       (simp_all add: token_immature_def token_expired_def obj_def)
  have raw: "py_index ?d ''raw'' = Inr (JStr ''dg0'')"
    by (simp add: obj_def)
  have step: "verify_dg ?e ''jwks_issuer.json'' (obj []) 100 0 [] ?d =
      Return (False, ''100'', error_info 0 ''JWT verification failed: Signature has expired'')"
    unfolding verify_dg_def raw
    by (simp add: v is_crypto_error_def ErrorCode_STRUCT_def)
  have md: "py_get (obj []) ''max_delegation_depth'' (JInt 3) = Inr (JInt 3)"
    by (simp add: obj_def)
  have t: "time_dg ?e = 100" by (simp add: example_env_def)
  have c: "verify_delegation_chain ?e None (JList ([] @ ?d # [])) ''jwks_issuer.json'' (obj []) =
      (Inr (False, ''100'', error_info 0 ''JWT verification failed: Signature has expired''), None)"
    by (rule chain_returns [where md = "JInt 3" and k = 3 and ps = "[]", OF md])
       (use step t in simp_all)
  from a v c show ?thesis by (simp add: error_info_def)
qed

subsection \<open>Status fetch errors\<close>

lemma dg_status_fetch_error:
  assumes "dg_status_url payload = Inr url" "truthy url"
    "py_get policy ''status_required'' (JBool True) = Inr req"
    "fetch_status (status_store e) url = Inl (StatusError, msg)"
  shows "dg_status e policy i payload =
    Inr (if truthy req then Some (False, ''E300'', error_info i msg) else None)"
proof -
  from assms(1) obtain d st where "py_get payload ''dg'' (JObj fmempty) = Inr d"
    "py_get d ''status'' (JObj fmempty) = Inr st" "py_get st ''url'' (JStr []) = Inr url"
    by (auto simp: dg_status_url_def ebind_eq_Inr)
  with assms(2-) show ?thesis
    by (simp add: dg_status_def ErrorCode_STATUS_FETCH_ERROR_def)
qed

lemma vc_status_fetch_error:
  assumes "credential_status_of payload = Inr cs"
    "py_get cs ''statusListCredential'' (JStr []) = Inr url" "truthy url"
    "py_get cs ''statusListIndex'' (JInt 0) = Inr idx"
    "py_get policy ''status_required'' (JBool True) = Inr req"
    "fetch_status (status_store e) url = Inl (StatusError, msg)"
  shows "vc_status e policy payload =
    Inr (if truthy req
         then Some (False, ''E300'', obj [(''error'', JStr msg), (''index'', idx)]) else None)"
proof -
  from assms(1) obtain vc where "py_get payload ''vc'' (JObj fmempty) = Inr vc"
    "py_get vc ''credentialStatus'' (JObj fmempty) = Inr cs"
    by (auto simp: credential_status_of_def ebind_eq_Inr)
  with assms(2-) show ?thesis
    by (simp add: vc_status_def ErrorCode_STATUS_FETCH_ERROR_def)
qed

text \<open>
  C3. Let the fetch of a status document for a non-empty status URL raise
  \<^verbatim>\<open>StatusError\<close>, and let \<open>req\<close> be the policy's \<^verbatim>\<open>status_required\<close>, \<^verbatim>\<open>True\<close> when the
  policy has no such field. For a delegation element the status check returns failure
  E300 (STATUS_FETCH_ERROR) when \<open>req\<close> is true and passes when it is false. When it
  is true and the element's status check is reached, the chain verifier returns that
  failure with the element's index and the ledger untouched: no later check and no
  later element is run. When it is false, the checks of the element go on with key
  binding and scope. For a credential whose algorithm and time checks pass,
  \<open>verify_vc_jwt\<close> returns failure E300 when \<open>req\<close> is true and success otherwise.
\<close>

theorem status_fetch_error_policy:
  assumes "fetch_status (status_store e) url = Inl (StatusError, msg)" and "truthy url"
    and "py_get policy ''status_required'' (JBool True) = Inr req"
  shows
    "(dg_status_url payload = Inr url \<longrightarrow>
        dg_status e policy i payload =
          Inr (if truthy req then Some (False, ''E300'', error_info i msg) else None)) \<and>
     (dg_status_url payload = Inr url \<and> truthy req \<and>
      py_get policy ''max_delegation_depth'' (JInt 3) = Inr md \<and> as_int md = Some k \<and>
      int (length (pre @ d # rest)) \<le> k \<and>
      dg_loop e jwks policy (time_dg e) 0 [] pre = Inr ps \<and>
      py_index d ''raw'' = Inr tok \<and> verify_jws e tok jwks = Inr (h, payload) \<and>
      dg_temporal (time_dg e) (length pre) payload = Inr None \<longrightarrow>
        verify_delegation_chain e anchor (JList (pre @ d # rest)) jwks policy =
          (Inr (False, ''E300'', error_info (length pre) msg), anchor)) \<and>
     (dg_status_url payload = Inr url \<and> \<not> truthy req \<and>
      dg_temporal now i payload = Inr None \<longrightarrow>
        dg_checks e jwks policy now i parsed payload =
          and_then (dg_key_binding e jwks i payload) (dg_scope i payload (parsed @ [payload]))) \<and>
     (credential_status_of vc_payload = Inr cs \<and>
      py_get cs ''statusListCredential'' (JStr []) = Inr url \<and>
      py_get cs ''statusListIndex'' (JInt 0) = Inr idx \<and>
      py_index vp ''jwt'' = Inr vc_tok \<and> verify_jws e vc_tok jwks = Inr (vc_h, vc_payload) \<and>
      vc_alg policy vc_h = Inr None \<and> vc_temporal e policy vc_payload = Inr None \<and>
      py_get vc_payload ''iss'' JNull = Inr iss \<and> py_get vc_payload ''sub'' JNull = Inr sub \<longrightarrow>
        verify_vc_jwt e vp jwks policy =
          (if truthy req
           then (False, ''E300'', obj [(''error'', JStr msg), (''index'', idx)])
           else (True, ''OK'', obj [(''iss'', iss), (''sub'', sub)])))"
proof (intro conjI impI)
  assume "dg_status_url payload = Inr url"
  then show "dg_status e policy i payload =
          Inr (if truthy req then Some (False, ''E300'', error_info i msg) else None)"
    using assms by (intro dg_status_fetch_error) simp_all
next
  assume r: "dg_status_url payload = Inr url \<and> truthy req \<and>
      py_get policy ''max_delegation_depth'' (JInt 3) = Inr md \<and> as_int md = Some k \<and>
      int (length (pre @ d # rest)) \<le> k \<and>
      dg_loop e jwks policy (time_dg e) 0 [] pre = Inr ps \<and>
      py_index d ''raw'' = Inr tok \<and> verify_jws e tok jwks = Inr (h, payload) \<and>
      dg_temporal (time_dg e) (length pre) payload = Inr None"
  then have s: "dg_status e policy (length pre) payload =
      Inr (Some (False, ''E300'', error_info (length pre) msg))"
    using assms dg_status_fetch_error [of payload url policy req e msg "length pre"] by simp
  have "verify_dg e jwks policy (time_dg e) (length pre) ps d =
      Return (False, ''E300'', error_info (length pre) msg)"
    using r s by (simp add: verify_dg_checks [of d tok e jwks h payload] dg_checks_def)
  with r show "verify_delegation_chain e anchor (JList (pre @ d # rest)) jwks policy =
          (Inr (False, ''E300'', error_info (length pre) msg), anchor)"
    by (intro chain_returns [where md = md and k = k and ps = ps]) simp_all
next
  assume r: "dg_status_url payload = Inr url \<and> \<not> truthy req \<and>
      dg_temporal now i payload = Inr None"
  then have "dg_status e policy i payload = Inr None"
    using assms dg_status_fetch_error [of payload url policy req e msg i] by simp
  with r show "dg_checks e jwks policy now i parsed payload =
          and_then (dg_key_binding e jwks i payload) (dg_scope i payload (parsed @ [payload]))"
    by (simp add: dg_checks_def)
next
  assume r: "credential_status_of vc_payload = Inr cs \<and>
      py_get cs ''statusListCredential'' (JStr []) = Inr url \<and>
      py_get cs ''statusListIndex'' (JInt 0) = Inr idx \<and>
      py_index vp ''jwt'' = Inr vc_tok \<and> verify_jws e vc_tok jwks = Inr (vc_h, vc_payload) \<and>
      vc_alg policy vc_h = Inr None \<and> vc_temporal e policy vc_payload = Inr None \<and>
      py_get vc_payload ''iss'' JNull = Inr iss \<and> py_get vc_payload ''sub'' JNull = Inr sub"
  then have s: "vc_status e policy vc_payload =
      Inr (if truthy req
           then Some (False, ''E300'', obj [(''error'', JStr msg), (''index'', idx)]) else None)"
    using assms by (intro vc_status_fetch_error [where cs = cs and url = url]) simp_all
  show "verify_vc_jwt e vp jwks policy =
          (if truthy req
           then (False, ''E300'', obj [(''error'', JStr msg), (''index'', idx)])
           else (True, ''OK'', obj [(''iss'', iss), (''sub'', sub)]))"
    using r s by (simp add: verify_vc_jwt_def ErrorCode_OK_def)
qed

theorem status_fetch_error_policy_witness:
  "verify_delegation_chain
      (example_env_no_status
         [(''dg0'', obj [(''nbf'', JInt 0), (''exp'', JInt 200),
            (''dg'', obj [(''status'', obj [(''url'', JStr ''https://status.example/1'')])])])] 100)
      None (JList [obj [(''raw'', JStr ''dg0'')]]) ''jwks_issuer.json'' (obj []) =
     (Inr (False, ''E300'', error_info 0 ''Status file not found''), None) \<and>
   dg_status
      (example_env_no_status [] 100) (obj [(''status_required'', JBool False)]) 0
      (obj [(''nbf'', JInt 0), (''exp'', JInt 200),
            (''dg'', obj [(''status'', obj [(''url'', JStr ''https://status.example/1'')])])]) =
     Inr None \<and>
   verify_vc_jwt
      (example_env_no_status
         [(''vc0'', obj [(''nbf'', JInt 0), (''exp'', JInt 200), (''iss'', JStr ''did:bank''),
            (''vc'', obj [(''credentialStatus'',
               obj [(''statusListCredential'', JStr ''https://status.example/1'')])])])] 100)
      (obj [(''jwt'', JStr ''vc0'')]) ''jwks_issuer.json'' (obj [(''status_required'', JBool False)]) =
     (True, ''OK'', obj [(''iss'', JStr ''did:bank''), (''sub'', JNull)])"
proof -
  let ?url = "JStr ''https://status.example/1''"
  let ?p = "obj [(''nbf'', JInt 0), (''exp'', JInt 200),
            (''dg'', obj [(''status'', obj [(''url'', ?url)])])]"
  let ?cs = "obj [(''statusListCredential'', ?url)]"
  let ?v = "obj [(''nbf'', JInt 0), (''exp'', JInt 200), (''iss'', JStr ''did:bank''),
            (''vc'', obj [(''credentialStatus'', ?cs)])]"
  let ?h = "obj [(''alg'', JStr ''EdDSA''), (''kid'', JStr ''issuer-key-1'')]"
  let ?e1 = "example_env_no_status [(''dg0'', ?p)] 100"
  let ?e2 = "example_env_no_status [] 100"
  let ?e3 = "example_env_no_status [(''vc0'', ?v)] 100"
  let ?off = "obj [(''status_required'', JBool False)]"
  have f: "fetch_status (status_store (example_env_no_status ts 100)) ?url =
      Inl (StatusError, ''Status file not found'')" for ts
    by (simp add: fetch_status_def example_env_no_status_def example_env_def sublist_code)
  have u: "truthy ?url" by simp
  have on: "py_get (obj []) ''status_required'' (JBool True) = Inr (JBool True)"
    and off: "py_get ?off ''status_required'' (JBool True) = Inr (JBool False)"
    by (simp_all add: obj_def)
  have du: "dg_status_url ?p = Inr ?url"
    by (simp add: dg_status_url_def obj_def)
  have v1: "verify_jws ?e1 (JStr ''dg0'') ''jwks_issuer.json'' = Inr (?h, ?p)"
    by (rule example_no_status_verify_jws) (simp_all add: token_time_defs obj_def)
  have v3: "verify_jws ?e3 (JStr ''vc0'') ''jwks_issuer.json'' = Inr (?h, ?v)"
    by (rule example_no_status_verify_jws) (simp_all add: token_time_defs obj_def)
  have t1: "dg_temporal (time_dg ?e1) (length ([] :: json list)) ?p = Inr None"
    by (simp add: dg_temporal_def example_env_no_status_def example_env_def obj_def py_lt_def)
  have a: "verify_delegation_chain ?e1 None (JList ([] @ obj [(''raw'', JStr ''dg0'')] # []))
      ''jwks_issuer.json'' (obj []) =
        (Inr (False, ''E300'', error_info (length ([] :: json list)) ''Status file not found''), None)"
    using status_fetch_error_policy [where payload = ?p and md = "JInt 3" and k = 3
        and pre = "[]" and d = "obj [(''raw'', JStr ''dg0'')]" and rest = "[]"
        and jwks = "''jwks_issuer.json''" and ps = "[]" and tok = "JStr ''dg0''" and h = ?h
        and anchor = None, OF f u on]
      du v1 t1
    by (simp add: obj_def)
  have b: "dg_status ?e2 ?off 0 ?p = Inr None"
    using status_fetch_error_policy [where payload = ?p and i = 0, OF f u off] du by simp
  have c: "verify_vc_jwt ?e3 (obj [(''jwt'', JStr ''vc0'')]) ''jwks_issuer.json'' ?off =
      (True, ''OK'', obj [(''iss'', JStr ''did:bank''), (''sub'', JNull)])"
    using status_fetch_error_policy [where vc_payload = ?v and cs = ?cs and idx = "JInt 0"
        and vp = "obj [(''jwt'', JStr ''vc0'')]" and vc_tok = "JStr ''vc0''"
        and jwks = "''jwks_issuer.json''" and vc_h = ?h and iss = "JStr ''did:bank''"
        and sub = JNull, OF f u off] v3
    by (simp add: credential_status_of_def obj_def vc_alg_def vc_temporal_def py_eq_def
        py_sub_def py_add_def py_lt_def example_env_no_status_def example_env_def)
  from a b c show ?thesis by simp
qed


subsection \<open>Status documents\<close>


text \<open>
  C10. \<open>is_revoked\<close> never looks at its index: two calls on one status document agree
  whatever the two indices are, and so does the revocation decision that
  \<open>verify_vc_jwt\<close> and the chain verifier take after fetching the document. When the
  document is a dict, the answer is false if it has no \<^verbatim>\<open>encodedList\<close>, and if
  \<^verbatim>\<open>encodedList\<close> is a string the answer is true exactly when five slashes occur in
  it as a substring.
\<close>

theorem is_revoked_ignores_index:
  "is_revoked doc i = is_revoked doc j \<and>
   ebind (fetch_status fs url) (\<lambda>status_doc. is_revoked status_doc i) =
     ebind (fetch_status fs url) (\<lambda>status_doc. is_revoked status_doc j) \<and>
   (\<forall>m. doc = JObj m \<and> fmlookup m ''encodedList'' = None \<longrightarrow> is_revoked doc i = Inr False) \<and>
   (\<forall>m s. doc = JObj m \<and> fmlookup m ''encodedList'' = Some (JStr s) \<longrightarrow>
      is_revoked doc i = Inr (\<exists>ps ss. s = ps @ ''/////'' @ ss))"
  by (auto simp: is_revoked_def sublist_def)

theorem is_revoked_ignores_index_witness:
  "is_revoked (JObj (fmap_of_list [(''encodedList'', JStr ''AA/////A'')])) (JInt 0) =
     is_revoked (JObj (fmap_of_list [(''encodedList'', JStr ''AA/////A'')])) (JInt 7) \<and>
   is_revoked (JObj (fmap_of_list [(''encodedList'', JStr ''AA/////A'')])) (JInt 0) = Inr True \<and>
   is_revoked (JObj (fmap_of_list [(''id'', JStr ''x'')])) (JInt 3) = Inr False"
proof -
  let ?d = "JObj (fmap_of_list [(''encodedList'', JStr ''AA/////A'')])"
  let ?e = "JObj (fmap_of_list [(''id'', JStr ''x'')])"
  have occ: "\<exists>ps ss. ''AA/////A'' = ps @ ''/////'' @ ss"
    by (rule exI [of _ "''AA''"], rule exI [of _ "''A''"]) simp
  have ld: "fmlookup (fmap_of_list [(''encodedList'', JStr ''AA/////A'')]) ''encodedList''
      = Some (JStr ''AA/////A'')"
    by simp
  have le: "fmlookup (fmap_of_list [(''id'', JStr ''x'')]) ''encodedList'' = None"
    by simp
  have a: "is_revoked ?d (JInt 0) = is_revoked ?d (JInt 7)"
    using is_revoked_ignores_index [of ?d "JInt 0" "JInt 7"] by blast
  have b: "is_revoked ?d (JInt 0) = Inr (\<exists>ps ss. ''AA/////A'' = ps @ ''/////'' @ ss)"
    using is_revoked_ignores_index [of ?d "JInt 0" "JInt 7"] ld by blast
  have c: "is_revoked ?e (JInt 3) = Inr False"
    using is_revoked_ignores_index [of ?e "JInt 3" "JInt 3"] le by blast
  from a b c occ show ?thesis by simp
qed

end
